theory Spec2Isabelle
  imports Main "HOL-Library.Word" "HOL-Library.Signed_Division"
begin

unbundle bit_operations_syntax

section \<open>Constants of the library and of its collaborators\<close>

text \<open>
  Return codes are C \<open>int\<close>s.  \<open>EOK\<close> is the variable server's name for 0; the others are
  the errno values of the host (Linux numbering).
\<close>

abbreviation (input) EOK :: int where "EOK \<equiv> 0"
abbreviation (input) ENOENT :: int where "ENOENT \<equiv> 2"
abbreviation (input) ENOMEM :: int where "ENOMEM \<equiv> 12"
abbreviation (input) EINVAL :: int where "EINVAL \<equiv> 22"
abbreviation (input) ENOTSUP :: int where "ENOTSUP \<equiv> 95"

text \<open>The enumeration \<open>VarOperation\<close> of varaction.h, in declaration order from 0.\<close>

abbreviation (input) VA_ILLEGAL :: int where "VA_ILLEGAL \<equiv> 0"
abbreviation (input) VA_ASSIGN :: int where "VA_ASSIGN \<equiv> 1"
abbreviation (input) VA_MUL :: int where "VA_MUL \<equiv> 2"
abbreviation (input) VA_DIV :: int where "VA_DIV \<equiv> 3"
abbreviation (input) VA_ADD :: int where "VA_ADD \<equiv> 4"
abbreviation (input) VA_SUB :: int where "VA_SUB \<equiv> 5"
abbreviation (input) VA_BAND :: int where "VA_BAND \<equiv> 6"
abbreviation (input) VA_BOR :: int where "VA_BOR \<equiv> 7"
abbreviation (input) VA_XOR :: int where "VA_XOR \<equiv> 8"
abbreviation (input) VA_INC :: int where "VA_INC \<equiv> 9"
abbreviation (input) VA_DEC :: int where "VA_DEC \<equiv> 10"
abbreviation (input) VA_LSHIFT :: int where "VA_LSHIFT \<equiv> 11"
abbreviation (input) VA_RSHIFT :: int where "VA_RSHIFT \<equiv> 12"
abbreviation (input) VA_AND :: int where "VA_AND \<equiv> 13"
abbreviation (input) VA_OR :: int where "VA_OR \<equiv> 14"
abbreviation (input) VA_NOT :: int where "VA_NOT \<equiv> 15"
abbreviation (input) VA_EQUALS :: int where "VA_EQUALS \<equiv> 16"
abbreviation (input) VA_NOTEQUALS :: int where "VA_NOTEQUALS \<equiv> 17"
abbreviation (input) VA_GT :: int where "VA_GT \<equiv> 18"
abbreviation (input) VA_LT :: int where "VA_LT \<equiv> 19"
abbreviation (input) VA_GTE :: int where "VA_GTE \<equiv> 20"
abbreviation (input) VA_LTE :: int where "VA_LTE \<equiv> 21"
abbreviation (input) VA_AND_EQUALS :: int where "VA_AND_EQUALS \<equiv> 22"
abbreviation (input) VA_OR_EQUALS :: int where "VA_OR_EQUALS \<equiv> 23"
abbreviation (input) VA_XOR_EQUALS :: int where "VA_XOR_EQUALS \<equiv> 24"
abbreviation (input) VA_DIV_EQUALS :: int where "VA_DIV_EQUALS \<equiv> 25"
abbreviation (input) VA_TIMES_EQUALS :: int where "VA_TIMES_EQUALS \<equiv> 26"
abbreviation (input) VA_PLUS_EQUALS :: int where "VA_PLUS_EQUALS \<equiv> 27"
abbreviation (input) VA_MINUS_EQUALS :: int where "VA_MINUS_EQUALS \<equiv> 28"
abbreviation (input) VA_SYSVAR :: int where "VA_SYSVAR \<equiv> 29"
abbreviation (input) VA_TOFLOAT :: int where "VA_TOFLOAT \<equiv> 30"
abbreviation (input) VA_TOINT :: int where "VA_TOINT \<equiv> 31"
abbreviation (input) VA_TOSHORT :: int where "VA_TOSHORT \<equiv> 32"
abbreviation (input) VA_TOSTRING :: int where "VA_TOSTRING \<equiv> 33"
abbreviation (input) VA_NUM :: int where "VA_NUM \<equiv> 34"
abbreviation (input) VA_FLOATNUM :: int where "VA_FLOATNUM \<equiv> 35"
abbreviation (input) VA_LOCALVAR :: int where "VA_LOCALVAR \<equiv> 36"
abbreviation (input) VA_STRING :: int where "VA_STRING \<equiv> 37"
abbreviation (input) VA_IF :: int where "VA_IF \<equiv> 38"
abbreviation (input) VA_ELSE :: int where "VA_ELSE \<equiv> 39"
abbreviation (input) VA_FLOAT :: int where "VA_FLOAT \<equiv> 40"
abbreviation (input) VA_INT :: int where "VA_INT \<equiv> 41"
abbreviation (input) VA_SHORT :: int where "VA_SHORT \<equiv> 42"
abbreviation (input) VA_CREATE_TICK :: int where "VA_CREATE_TICK \<equiv> 43"
abbreviation (input) VA_CREATE_TIMER :: int where "VA_CREATE_TIMER \<equiv> 44"
abbreviation (input) VA_DELETE_TIMER :: int where "VA_DELETE_TIMER \<equiv> 45"
abbreviation (input) VA_ACTIVE_TIMER :: int where "VA_ACTIVE_TIMER \<equiv> 46"
abbreviation (input) VA_TIMER :: int where "VA_TIMER \<equiv> 47"
abbreviation (input) VA_OP_MAX :: int where "VA_OP_MAX \<equiv> 48"

text \<open>\<open>MAX_TIMERS\<close> of vartimer.c.\<close>

abbreviation (input) MAX_TIMERS :: int where "MAX_TIMERS \<equiv> 255"


section \<open>Data model\<close>

text \<open>
  The type tag of a value.  The handlers switch on the four tags below; every other tag
  of the variable server (and the \<open>-1\<close> that \<open>TypeCheck\<close> stores on a mismatch) takes the
  \<open>default\<close> branch and is kept as \<open>VARTYPE_OTHER\<close>.
\<close>

datatype VarType =
    VARTYPE_UINT16
  | VARTYPE_UINT32
  | VARTYPE_FLOAT
  | VARTYPE_STR
  | VARTYPE_OTHER int

text \<open>
  \<open>VarObject\<close> is declared by the variable server: a type tag, a length and a union
  \<open>val\<close> with the members \<open>ui\<close> (16 bit), \<open>ul\<close> (32 bit), \<open>f\<close> (float) and \<open>str\<close>
  (character pointer).  Each member of the union is a field of its own here, so the
  overlap of the members in memory is not part of the model.  A float is kept as its 32-bit
  pattern and its arithmetic is a parameter.  A character pointer is \<open>None\<close> for \<open>NULL\<close>
  and otherwise the address of a character buffer in the state, so that two pointers to
  one buffer see the same bytes.  \<open>size_t\<close> is taken as the unsigned 64-bit integer
  that it is on an LP64 host: its arithmetic wraps around.
\<close>

type_synonym float32 = "32 word"

type_synonym size_t = "64 word"

type_synonym addr = nat

record VarObject =
  type :: VarType
  len :: size_t
  val_ui :: "16 word"
  val_ul :: "32 word"
  val_f :: float32
  val_str :: "addr option"

text \<open>
  \<open>Variable\<close> of varaction.h without its three link fields, which are in the tree below.
  \<open>hVar\<close> is a handle of the variable server, 0 being \<open>VAR_INVALID\<close>.
\<close>

type_synonym VAR_HANDLE = nat

abbreviation (input) VAR_INVALID :: VAR_HANDLE where "VAR_INVALID \<equiv> 0"

record Variable =
  operation :: int
  lineno :: int
  ident :: "string option"
  local :: bool
  assigned :: bool
  lvalue :: bool
  calcNotification :: bool
  modifiedNotification :: bool
  bufsize :: size_t
  hVar :: VAR_HANDLE
  obj :: VarObject

text \<open>
  The evaluator never writes a link field (\<open>left\<close>, \<open>right\<close>, \<open>pNext\<close>), and the source
  calls what the compiler builds a variable tree.  So the links are a tree, each node of
  which carries the address of its \<open>Variable\<close>; the contents of the node are in the store
  at that address, and two occurrences of one identifier share one cell as they do in C.
  A link of an ELSE node points to a statement list (the source casts it); a statement
  list is the list of its statements along \<open>pNext\<close>, the empty list being \<open>NULL\<close>.
\<close>

datatype Tree = Node addr Link Link
and Link = Null | ToVariable Tree | ToStatements "Statement list"
and Statement = Statement Link "string option" int

text \<open>The functions of the dispatch table \<open>va_op\<close>, by name.\<close>

datatype opfn =
    Fn_Unsupported | Fn_NOP | Fn_GetVar
  | Fn_Assign | Fn_Multiply | Fn_Divide | Fn_Add | Fn_Sub
  | Fn_Band | Fn_Bor | Fn_Xor | Fn_Inc | Fn_Dec | Fn_LShift | Fn_RShift
  | Fn_And | Fn_Or | Fn_Not
  | Fn_Equals | Fn_NotEquals | Fn_GreaterThan | Fn_LessThan
  | Fn_GreaterThanOrEqual | Fn_LessThanOrEqual
  | Fn_AndEquals | Fn_OrEquals | Fn_XorEquals | Fn_DivEquals | Fn_TimesEquals
  | Fn_PlusEquals | Fn_MinusEquals
  | Fn_ToFloat | Fn_ToString | Fn_ToShort | Fn_ToInt
  | Fn_VACreateTick | Fn_VACreateTimer | Fn_VADeleteTimer | Fn_VAGetActiveTimer

text \<open>
  The state of the process: the store of \<open>Variable\<close> cells, the character buffers that
  are allocated (the bytes of each, as many as its size; \<open>None\<close> where no buffer is), the
  file-scoped table \<open>va_op\<close> (\<open>None\<close> is a null function pointer), the file-scoped
  \<open>timers\<close> array and \<open>activeTimer\<close> of vartimer.c, and the state \<open>world\<close> of everything
  outside the library (variable server, operating system, allocator).
\<close>

type_synonym timer_t = nat

record 'w state =
  vars :: "addr \<Rightarrow> Variable"
  bufs :: "addr \<Rightarrow> char list option"
  va_op :: "int \<Rightarrow> opfn option"
  timers :: "int \<Rightarrow> timer_t"
  activeTimer :: "16 word"
  world :: 'w

text \<open>
  A call returns its \<open>int\<close> and the state it leaves, or \<open>None\<close> where C gives the call no
  meaning (an integer division by zero, a read through a null or a wrongly typed pointer,
  an index outside an array).
\<close>

type_synonym 'w outcome = "(int \<times> 'w state) option"

type_synonym VARSERVER_HANDLE = "nat option"

type_synonym 'w handler =
  "VARSERVER_HANDLE \<Rightarrow> addr option \<Rightarrow> addr option \<Rightarrow> addr option \<Rightarrow> 'w state \<Rightarrow> 'w outcome"

text \<open>
  What the library calls and does not define: the variable server (\<open>VAR_Get\<close> fills an
  object, the bytes it may store through the character pointer of a string object left
  out; \<open>VAR_Set\<close> reports a code and leaves the object as it is), \<open>system\<close>, the POSIX
  timer calls (\<open>timer_create\<close> gives the new handle or none, \<open>timer_delete\<close> its return
  value and the \<open>errno\<close> it leaves), the allocator, float arithmetic and comparison, the
  value found in a local variable that was never initialised, and the handlers of
  varbitwise.c, varboolean.c and vartypecast.c, which are not modelled.  Of the
  allocator, \<open>malloc\<close> gives for a size the address of the new block and the bytes it
  happens to hold (as many as the size), or nothing; \<open>realloc\<close> gives for a block and a size the address of the
  resized block (the old address or another) and the bytes that happen to follow the ones
  kept, or nothing; \<open>calloc_Variable\<close> gives the address of a fresh \<open>Variable\<close> or nothing.
\<close>

record 'w env =
  VAR_Get :: "'w \<Rightarrow> nat \<Rightarrow> VAR_HANDLE \<Rightarrow> VarObject \<Rightarrow> int \<times> VarObject \<times> 'w"
  VAR_Set :: "'w \<Rightarrow> nat \<Rightarrow> VAR_HANDLE \<Rightarrow> VarObject \<Rightarrow> int \<times> 'w"
  system :: "'w \<Rightarrow> string \<Rightarrow> 'w"
  timer_create :: "'w \<Rightarrow> int \<Rightarrow> timer_t option \<times> 'w"
  timer_settime :: "'w \<Rightarrow> timer_t \<Rightarrow> int \<times> int \<times> int \<times> int \<Rightarrow> 'w"
  timer_delete :: "'w \<Rightarrow> timer_t \<Rightarrow> int \<times> int \<times> 'w"
  malloc :: "'w \<Rightarrow> nat \<Rightarrow> (addr \<times> char list) option \<times> 'w"
  realloc :: "'w \<Rightarrow> addr \<Rightarrow> nat \<Rightarrow> (addr \<times> char list) option \<times> 'w"
  calloc_Variable :: "'w \<Rightarrow> addr option \<times> 'w"
  f_add :: "float32 \<Rightarrow> float32 \<Rightarrow> float32"
  f_sub :: "float32 \<Rightarrow> float32 \<Rightarrow> float32"
  f_mul :: "float32 \<Rightarrow> float32 \<Rightarrow> float32"
  f_div :: "float32 \<Rightarrow> float32 \<Rightarrow> float32"
  f_eq :: "float32 \<Rightarrow> float32 \<Rightarrow> bool"
  f_less :: "float32 \<Rightarrow> float32 \<Rightarrow> bool"
  f_le :: "float32 \<Rightarrow> float32 \<Rightarrow> bool"
  uninit_int :: "'w \<Rightarrow> int"
  other_handler :: "opfn \<Rightarrow> 'w handler"


section \<open>Reading and writing cells\<close>

definition Obj :: "'w state \<Rightarrow> addr \<Rightarrow> VarObject" where
  "Obj s a = obj (vars s a)"

definition set_obj :: "addr \<Rightarrow> (VarObject \<Rightarrow> VarObject) \<Rightarrow> 'w state \<Rightarrow> 'w state" where
  "set_obj a f s = s\<lparr>vars := (vars s)(a := (vars s a)\<lparr>obj := f (obj (vars s a))\<rparr>)\<rparr>"

definition set_bufsize :: "addr \<Rightarrow> size_t \<Rightarrow> 'w state \<Rightarrow> 'w state" where
  "set_bufsize a n s = s\<lparr>vars := (vars s)(a := (vars s a)\<lparr>bufsize := n\<rparr>)\<rparr>"

text \<open>A C \<open>bool\<close> stored in a 16-bit member is 1 or 0.\<close>

definition of_bool16 :: "bool \<Rightarrow> 16 word" where
  "of_bool16 b = (if b then 1 else 0)"

text \<open>
  The closing block of the comparison and boolean handlers:
  \<open>pResult->obj.val.ui = val; pResult->obj.type = VARTYPE_UINT16;
  pResult->obj.len = sizeof(uint16_t);\<close>
\<close>

definition store_bool :: "addr \<Rightarrow> bool \<Rightarrow> 'w state \<Rightarrow> 'w state" where
  "store_bool res v s =
     set_obj res (\<lambda>ob. ob\<lparr>val_ui := of_bool16 v, type := VARTYPE_UINT16, len := 2\<rparr>) s"


section \<open>Character buffers and the C library on them\<close>

text \<open>
  The string a character pointer points to is the bytes of its buffer before the first
  NUL.  Reading through a null pointer, through a pointer to no buffer, or to the end of a
  buffer that holds no NUL has no meaning.
\<close>

abbreviation (input) NUL :: char where "NUL \<equiv> CHR 0x00"

definition c_string :: "char list \<Rightarrow> string option" where
  "c_string bytes =
     (if NUL \<in> set bytes then Some (takeWhile (\<lambda>c. c \<noteq> NUL) bytes) else None)"

definition string_at :: "'w state \<Rightarrow> addr option \<Rightarrow> string option" where
  "string_at s p =
     (case p of
        None \<Rightarrow> None
      | Some b \<Rightarrow> (case bufs s b of None \<Rightarrow> None | Some bytes \<Rightarrow> c_string bytes))"

text \<open>Writing bytes at an offset of a buffer has a meaning only inside the buffer.\<close>

definition write_at :: "nat \<Rightarrow> char list \<Rightarrow> char list \<Rightarrow> char list option" where
  "write_at off src dst =
     (if off + length src \<le> length dst
      then Some (take off dst @ src @ drop (off + length src) dst)
      else None)"

definition write_buffer :: "addr option \<Rightarrow> nat \<Rightarrow> char list \<Rightarrow> 'w state \<Rightarrow> 'w state option" where
  "write_buffer p off src s =
     (case p of
        None \<Rightarrow> None
      | Some b \<Rightarrow>
          (case bufs s b of
             None \<Rightarrow> None
           | Some bytes \<Rightarrow>
               (case write_at off src bytes of
                  None \<Rightarrow> None
                | Some bytes' \<Rightarrow> Some (s\<lparr>bufs := (bufs s)(b := Some bytes')\<rparr>))))"

text \<open>
  \<open>memcpy (dst, src, n)\<close>: nothing happens for no bytes; otherwise the two blocks must
  not be one, and \<open>n\<close> bytes must be there to read.  \<open>strcpy (dst + off, src)\<close> and
  \<open>strcat (dst, src)\<close> copy the string at \<open>src\<close> with its NUL; source and destination must
  not be one buffer.
\<close>

definition memcpy :: "addr option \<Rightarrow> addr option \<Rightarrow> nat \<Rightarrow> 'w state \<Rightarrow> 'w state option" where
  "memcpy dst src n s =
     (if n = 0 then Some s
      else
        (case src of
           None \<Rightarrow> None
         | Some b \<Rightarrow>
             (case bufs s b of
                None \<Rightarrow> None
              | Some bytes \<Rightarrow>
                  if dst = src then None
                  else if n \<le> length bytes then write_buffer dst 0 (take n bytes) s
                  else None)))"

definition strcpy :: "addr option \<Rightarrow> nat \<Rightarrow> addr option \<Rightarrow> 'w state \<Rightarrow> 'w state option" where
  "strcpy dst off src s =
     (case string_at s src of
        None \<Rightarrow> None
      | Some str \<Rightarrow> if dst = src then None else write_buffer dst off (str @ [NUL]) s)"

definition strcat :: "addr option \<Rightarrow> addr option \<Rightarrow> 'w state \<Rightarrow> 'w state option" where
  "strcat dst src s =
     (case string_at s dst of
        None \<Rightarrow> None
      | Some str \<Rightarrow> strcpy dst (length str) src s)"

text \<open>
  \<open>malloc\<close> and \<open>realloc\<close> on the buffers of the state.  \<open>realloc\<close> of a pointer to no
  buffer has no meaning; when it succeeds the old block is gone and the new one holds the
  old bytes, as many as fit, and then what the environment gives; when it fails the old
  block stays.  \<open>strdup\<close> is \<open>malloc\<close> of the length plus one and a copy.
\<close>

definition malloc_buffer :: "'w env \<Rightarrow> nat \<Rightarrow> 'w state \<Rightarrow> addr option \<times> 'w state" where
  "malloc_buffer env n s =
     (case malloc env (world s) n of
        (Some (q, bytes), w) \<Rightarrow> (Some q, s\<lparr>bufs := (bufs s)(q := Some bytes), world := w\<rparr>)
      | (None, w) \<Rightarrow> (None, s\<lparr>world := w\<rparr>))"

definition realloc_buffer :: "'w env \<Rightarrow> addr \<Rightarrow> nat \<Rightarrow> 'w state \<Rightarrow> (addr option \<times> 'w state) option" where
  "realloc_buffer env b n s =
     (case bufs s b of
        None \<Rightarrow> None
      | Some old \<Rightarrow>
          Some (case realloc env (world s) b n of
                  (Some (q, junk), w) \<Rightarrow>
                    (Some q, s\<lparr>bufs := ((bufs s)(b := None))(q := Some (take n (old @ junk))),
                                world := w\<rparr>)
                | (None, w) \<Rightarrow> (None, s\<lparr>world := w\<rparr>)))"

definition strdup :: "'w env \<Rightarrow> string \<Rightarrow> 'w state \<Rightarrow> addr option \<times> 'w state" where
  "strdup env str s =
     (case malloc env (world s) (length str + 1) of
        (Some (q, bytes), w) \<Rightarrow> (Some q, s\<lparr>bufs := (bufs s)(q := Some (str @ [NUL])), world := w\<rparr>)
      | (None, w) \<Rightarrow> (None, s\<lparr>world := w\<rparr>))"


section \<open>varstrings.c\<close>

text \<open>
  \<open>AllocateString\<close>.  The first \<open>if\<close> of the source (the \<open>realloc\<close>) only changes the
  state, since the second \<open>if\<close> sets the result on each of its branches.
\<close>

definition AllocateString :: "'w env \<Rightarrow> addr option \<Rightarrow> size_t \<Rightarrow> 'w state \<Rightarrow> 'w outcome" where
  "AllocateString env pVariable n s =
     (case pVariable of
        None \<Rightarrow> Some (EINVAL, s)
      | Some p \<Rightarrow>
          if type (Obj s p) = VARTYPE_STR then
            let bsize = (if n < 32 then 32 else n + 1) in
            (case (case val_str (Obj s p) of
                     None \<Rightarrow> Some s
                   | Some b \<Rightarrow>
                       if bufsize (vars s p) \<le> n then
                         (case realloc_buffer env b (unat bsize) s of
                            None \<Rightarrow> None
                          | Some (Some q, s') \<Rightarrow>
                              Some (set_bufsize p bsize
                                     (set_obj p (\<lambda>ob. ob\<lparr>val_str := Some q\<rparr>) s'))
                          | Some (None, s') \<Rightarrow>
                              Some (set_bufsize p 0
                                     (set_obj p (\<lambda>ob. ob\<lparr>val_str := None\<rparr>) s')))
                       else Some s) of
               None \<Rightarrow> None
             | Some s1 \<Rightarrow>
                 if val_str (Obj s1 p) = None then
                   (case malloc_buffer env (unat bsize) s1 of
                      (Some q, s2) \<Rightarrow>
                        Some (EOK, set_bufsize p bsize
                                     (set_obj p (\<lambda>ob. ob\<lparr>val_str := Some q\<rparr>) s2))
                    | (None, s2) \<Rightarrow> Some (ENOMEM, set_bufsize p 0 s2))
                 else Some (EOK, s1))
          else Some (ENOTSUP, s))"

text \<open>
  \<open>AssignString\<close>: \<open>memcpy\<close> of \<open>len\<close> bytes from the right buffer, a NUL at \<open>len\<close>,
  then the fields of the left operand and of the result node, whose pointer is the left
  operand's.
\<close>

definition AssignString :: "'w env \<Rightarrow> addr option \<Rightarrow> addr option \<Rightarrow> addr option \<Rightarrow> 'w state \<Rightarrow> 'w outcome" where
  "AssignString env pResult pLeft pRight s =
     (case (pResult, pLeft, pRight) of
        (Some res, Some l, Some r) \<Rightarrow>
          if type (Obj s l) = VARTYPE_STR \<and> type (Obj s r) = VARTYPE_STR then
            let n = len (Obj s r) in
            (case AllocateString env (Some l) n s of
               None \<Rightarrow> None
             | Some (result, s1) \<Rightarrow>
                 if result = EOK then
                   (case memcpy (val_str (Obj s1 l)) (val_str (Obj s1 r)) (unat n) s1 of
                      None \<Rightarrow> None
                    | Some s2 \<Rightarrow>
                        (case write_buffer (val_str (Obj s2 l)) (unat n) [NUL] s2 of
                           None \<Rightarrow> None
                         | Some s3 \<Rightarrow>
                             let s4 = set_obj l (\<lambda>ob. ob\<lparr>len := n, type := VARTYPE_STR\<rparr>) s3;
                                 s5 = set_obj res (\<lambda>ob. ob\<lparr>val_str := val_str (Obj s4 l),
                                                            len := n, type := VARTYPE_STR\<rparr>) s4
                             in Some (EOK, set_bufsize res (bufsize (vars s5 l)) s5)))
                 else Some (result, s1))
          else Some (ENOTSUP, s)
      | _ \<Rightarrow> Some (EINVAL, s))"

text \<open>
  \<open>AddString\<close>: \<open>strcpy\<close> of the left string to the start of the result buffer and of the
  right string to offset \<open>len1\<close>.
\<close>

definition AddString :: "'w env \<Rightarrow> addr option \<Rightarrow> addr option \<Rightarrow> addr option \<Rightarrow> 'w state \<Rightarrow> 'w outcome" where
  "AddString env pResult pLeft pRight s =
     (case (pResult, pLeft, pRight) of
        (Some res, Some l, Some r) \<Rightarrow>
          if type (Obj s l) = VARTYPE_STR \<and> type (Obj s r) = VARTYPE_STR then
            (case (val_str (Obj s l), val_str (Obj s r)) of
               (Some _, Some _) \<Rightarrow>
                 let len1 = len (Obj s l);
                     len2 = len (Obj s r);
                     n = len1 + len2;
                     s1 = set_obj res (\<lambda>ob. ob\<lparr>type := VARTYPE_STR\<rparr>) s
                 in (case AllocateString env (Some res) n s1 of
                       None \<Rightarrow> None
                     | Some (result, s2) \<Rightarrow>
                         if result = EOK then
                           (case strcpy (val_str (Obj s2 res)) 0 (val_str (Obj s2 l)) s2 of
                              None \<Rightarrow> None
                            | Some s3 \<Rightarrow>
                                (case strcpy (val_str (Obj s3 res)) (unat len1)
                                        (val_str (Obj s3 r)) s3 of
                                   None \<Rightarrow> None
                                 | Some s4 \<Rightarrow>
                                     Some (EOK, set_obj res (\<lambda>ob. ob\<lparr>len := n\<rparr>) s4)))
                         else Some (result, s2))
             | _ \<Rightarrow> Some (ENOTSUP, s))
          else Some (ENOTSUP, s)
      | _ \<Rightarrow> Some (EINVAL, s))"

text \<open>\<open>ConcatString\<close>: \<open>strcat\<close> of the right string onto the left buffer.\<close>

definition ConcatString :: "'w env \<Rightarrow> addr option \<Rightarrow> addr option \<Rightarrow> addr option \<Rightarrow> 'w state \<Rightarrow> 'w outcome" where
  "ConcatString env pResult pLeft pRight s =
     (case (pResult, pLeft, pRight) of
        (Some res, Some l, Some r) \<Rightarrow>
          if type (Obj s l) = VARTYPE_STR \<and> type (Obj s r) = VARTYPE_STR then
            (case (val_str (Obj s l), val_str (Obj s r)) of
               (Some _, Some _) \<Rightarrow>
                 let len1 = len (Obj s l);
                     len2 = len (Obj s r);
                     n = len1 + len2
                 in (case AllocateString env (Some l) n s of
                       None \<Rightarrow> None
                     | Some (result, s1) \<Rightarrow>
                         if result = EOK then
                           (case strcat (val_str (Obj s1 l)) (val_str (Obj s1 r)) s1 of
                              None \<Rightarrow> None
                            | Some s2 \<Rightarrow>
                                let s3 = set_obj l (\<lambda>ob. ob\<lparr>len := n\<rparr>) s2;
                                    s4 = set_obj res (\<lambda>ob. ob\<lparr>len := n, type := VARTYPE_STR,
                                                               val_str := val_str (Obj s3 l)\<rparr>) s3
                                in Some (EOK, set_bufsize res (bufsize (vars s4 l)) s4))
                         else Some (result, s1))
             | _ \<Rightarrow> Some (ENOTSUP, s))
          else Some (ENOTSUP, s)
      | _ \<Rightarrow> Some (EINVAL, s))"


section \<open>varmath.c\<close>

text \<open>
  The three lines that close every numeric case:
  \<open>pResult->obj.val.ul = ...; pResult->obj.type = VARTYPE_UINT32;
  pResult->obj.len = sizeof(uint32_t);\<close> and the same for \<open>ui\<close> and \<open>f\<close>.
\<close>

definition result_ul :: "addr \<Rightarrow> 32 word \<Rightarrow> 'w state \<Rightarrow> 'w state" where
  "result_ul res v s = set_obj res (\<lambda>ob. ob\<lparr>val_ul := v, type := VARTYPE_UINT32, len := 4\<rparr>) s"

definition result_ui :: "addr \<Rightarrow> 16 word \<Rightarrow> 'w state \<Rightarrow> 'w state" where
  "result_ui res v s = set_obj res (\<lambda>ob. ob\<lparr>val_ui := v, type := VARTYPE_UINT16, len := 2\<rparr>) s"

definition result_f :: "addr \<Rightarrow> float32 \<Rightarrow> 'w state \<Rightarrow> 'w state" where
  "result_f res v s = set_obj res (\<lambda>ob. ob\<lparr>val_f := v, type := VARTYPE_FLOAT, len := 4\<rparr>) s"

text \<open>
  The functions of varmath.c do not look at \<open>hVarServer\<close>.  C computes on 16-bit operands
  after promoting them to \<open>int\<close> and stores the low 16 bits; the word operations give
  those bits.
\<close>

definition Multiply :: "'w env \<Rightarrow> 'w handler" where
  "Multiply env hVarServer pResult pLeft pRight s =
     (case (pResult, pLeft, pRight) of
        (Some res, Some l, Some r) \<Rightarrow>
          (case type (Obj s l) of
             VARTYPE_UINT32 \<Rightarrow> Some (EOK, result_ul res (val_ul (Obj s l) * val_ul (Obj s r)) s)
           | VARTYPE_UINT16 \<Rightarrow> Some (EOK, result_ui res (val_ui (Obj s l) * val_ui (Obj s r)) s)
           | VARTYPE_FLOAT \<Rightarrow> Some (EOK, result_f res (f_mul env (val_f (Obj s l)) (val_f (Obj s r))) s)
           | _ \<Rightarrow> Some (ENOTSUP, s))
      | _ \<Rightarrow> Some (EINVAL, s))"

text \<open>An integer division by zero has no meaning in C: there is no outcome.\<close>

definition Divide :: "'w env \<Rightarrow> 'w handler" where
  "Divide env hVarServer pResult pLeft pRight s =
     (case (pResult, pLeft, pRight) of
        (Some res, Some l, Some r) \<Rightarrow>
          (case type (Obj s l) of
             VARTYPE_UINT32 \<Rightarrow>
               if val_ul (Obj s r) = 0 then None
               else Some (EOK, result_ul res (val_ul (Obj s l) div val_ul (Obj s r)) s)
           | VARTYPE_UINT16 \<Rightarrow>
               if val_ui (Obj s r) = 0 then None
               else Some (EOK, result_ui res (val_ui (Obj s l) div val_ui (Obj s r)) s)
           | VARTYPE_FLOAT \<Rightarrow> Some (EOK, result_f res (f_div env (val_f (Obj s l)) (val_f (Obj s r))) s)
           | _ \<Rightarrow> Some (ENOTSUP, s))
      | _ \<Rightarrow> Some (EINVAL, s))"

definition Add :: "'w env \<Rightarrow> 'w handler" where
  "Add env hVarServer pResult pLeft pRight s =
     (case (pResult, pLeft, pRight) of
        (Some res, Some l, Some r) \<Rightarrow>
          (case type (Obj s l) of
             VARTYPE_UINT32 \<Rightarrow> Some (EOK, result_ul res (val_ul (Obj s l) + val_ul (Obj s r)) s)
           | VARTYPE_UINT16 \<Rightarrow> Some (EOK, result_ui res (val_ui (Obj s l) + val_ui (Obj s r)) s)
           | VARTYPE_FLOAT \<Rightarrow> Some (EOK, result_f res (f_add env (val_f (Obj s l)) (val_f (Obj s r))) s)
           | VARTYPE_STR \<Rightarrow> AddString env pResult pLeft pRight s
           | _ \<Rightarrow> Some (ENOTSUP, s))
      | _ \<Rightarrow> Some (EINVAL, s))"

definition Sub :: "'w env \<Rightarrow> 'w handler" where
  "Sub env hVarServer pResult pLeft pRight s =
     (case (pResult, pLeft, pRight) of
        (Some res, Some l, Some r) \<Rightarrow>
          (case type (Obj s l) of
             VARTYPE_UINT32 \<Rightarrow> Some (EOK, result_ul res (val_ul (Obj s l) - val_ul (Obj s r)) s)
           | VARTYPE_UINT16 \<Rightarrow> Some (EOK, result_ui res (val_ui (Obj s l) - val_ui (Obj s r)) s)
           | VARTYPE_FLOAT \<Rightarrow> Some (EOK, result_f res (f_sub env (val_f (Obj s l)) (val_f (Obj s r))) s)
           | _ \<Rightarrow> Some (ENOTSUP, s))
      | _ \<Rightarrow> Some (EINVAL, s))"


section \<open>varcompare.c\<close>

text \<open>
  \<open>strcmp\<close> of the C library on two strings: the sign of the first difference, bytes
  compared unsigned.  The handlers read the two strings through their pointers.
\<close>

fun strcmp :: "string \<Rightarrow> string \<Rightarrow> int" where
  "strcmp [] [] = 0"
| "strcmp [] (y # ys) = -1"
| "strcmp (x # xs) [] = 1"
| "strcmp (x # xs) (y # ys) =
     (if x = y then strcmp xs ys
      else if (of_char x :: nat) < of_char y then -1 else 1)"

definition Equals :: "'w env \<Rightarrow> 'w handler" where
  "Equals env hVarServer pResult pLeft pRight s =
     (case (hVarServer, pResult, pLeft, pRight) of
        (Some _, Some res, Some l, Some r) \<Rightarrow>
          (case type (Obj s l) of
             VARTYPE_UINT32 \<Rightarrow>
               Some (EOK, store_bool res (val_ul (Obj s l) = val_ul (Obj s r)) s)
           | VARTYPE_UINT16 \<Rightarrow>
               Some (EOK, store_bool res (val_ui (Obj s l) = val_ui (Obj s r)) s)
           | VARTYPE_FLOAT \<Rightarrow>
               Some (EOK, store_bool res (f_eq env (val_f (Obj s l)) (val_f (Obj s r))) s)
           | VARTYPE_STR \<Rightarrow>
               (case (val_str (Obj s l), val_str (Obj s r)) of
                  (None, None) \<Rightarrow> Some (EOK, store_bool res True s)
                | (None, Some _) \<Rightarrow> Some (EOK, store_bool res False s)
                | (Some _, None) \<Rightarrow> Some (EOK, store_bool res False s)
                | (Some _, Some _) \<Rightarrow>
                    (case (string_at s (val_str (Obj s l)), string_at s (val_str (Obj s r))) of
                       (Some a, Some b) \<Rightarrow> Some (EOK, store_bool res (strcmp a b = 0) s)
                     | _ \<Rightarrow> None))
           | VARTYPE_OTHER _ \<Rightarrow> Some (ENOTSUP, s))
      | _ \<Rightarrow> Some (EINVAL, s))"

text \<open>
  \<open>NotEquals\<close> calls \<open>Equals\<close> and then tests \<open>pResult == EOK\<close>, the pointer against 0.
  For a result node that exists the test is false and nothing follows; for a null
  \<open>pResult\<close> the guarded statement reads \<open>pResult->obj.val.ui\<close>.  That statement is a bare
  conditional expression: it assigns nothing.
\<close>

definition NotEquals :: "'w env \<Rightarrow> 'w handler" where
  "NotEquals env hVarServer pResult pLeft pRight s =
     (case Equals env hVarServer pResult pLeft pRight s of
        None \<Rightarrow> None
      | Some (result, s') \<Rightarrow>
          (case pResult of
             None \<Rightarrow> None
           | Some _ \<Rightarrow> Some (result, s')))"


text \<open>
  The float comparisons \<open>>\<close> and \<open>>=\<close> are \<open><\<close> and \<open><=\<close> with the operands exchanged.
\<close>

definition GreaterThan :: "'w env \<Rightarrow> 'w handler" where
  "GreaterThan env hVarServer pResult pLeft pRight s =
     (case (hVarServer, pResult, pLeft, pRight) of
        (Some _, Some res, Some l, Some r) \<Rightarrow>
          (case type (Obj s l) of
             VARTYPE_UINT32 \<Rightarrow>
               Some (EOK, store_bool res (val_ul (Obj s l) > val_ul (Obj s r)) s)
           | VARTYPE_UINT16 \<Rightarrow>
               Some (EOK, store_bool res (val_ui (Obj s l) > val_ui (Obj s r)) s)
           | VARTYPE_FLOAT \<Rightarrow>
               Some (EOK, store_bool res (f_less env (val_f (Obj s r)) (val_f (Obj s l))) s)
           | VARTYPE_STR \<Rightarrow>
               (case (val_str (Obj s l), val_str (Obj s r)) of
                  (None, None) \<Rightarrow> Some (EOK, store_bool res False s)
                | (None, Some _) \<Rightarrow> Some (EOK, store_bool res False s)
                | (Some _, None) \<Rightarrow> Some (EOK, store_bool res True s)
                | (Some _, Some _) \<Rightarrow>
                    (case (string_at s (val_str (Obj s l)), string_at s (val_str (Obj s r))) of
                       (Some a, Some b) \<Rightarrow> Some (EOK, store_bool res (strcmp a b > 0) s)
                     | _ \<Rightarrow> None))
           | VARTYPE_OTHER _ \<Rightarrow> Some (ENOTSUP, s))
      | _ \<Rightarrow> Some (EINVAL, s))"

definition LessThan :: "'w env \<Rightarrow> 'w handler" where
  "LessThan env hVarServer pResult pLeft pRight s =
     (case (hVarServer, pResult, pLeft, pRight) of
        (Some _, Some res, Some l, Some r) \<Rightarrow>
          (case type (Obj s l) of
             VARTYPE_UINT32 \<Rightarrow>
               Some (EOK, store_bool res (val_ul (Obj s l) < val_ul (Obj s r)) s)
           | VARTYPE_UINT16 \<Rightarrow>
               Some (EOK, store_bool res (val_ui (Obj s l) < val_ui (Obj s r)) s)
           | VARTYPE_FLOAT \<Rightarrow>
               Some (EOK, store_bool res (f_less env (val_f (Obj s l)) (val_f (Obj s r))) s)
           | VARTYPE_STR \<Rightarrow>
               (case (val_str (Obj s l), val_str (Obj s r)) of
                  (None, None) \<Rightarrow> Some (EOK, store_bool res False s)
                | (None, Some _) \<Rightarrow> Some (EOK, store_bool res True s)
                | (Some _, None) \<Rightarrow> Some (EOK, store_bool res False s)
                | (Some _, Some _) \<Rightarrow>
                    (case (string_at s (val_str (Obj s l)), string_at s (val_str (Obj s r))) of
                       (Some a, Some b) \<Rightarrow> Some (EOK, store_bool res (strcmp a b < 0) s)
                     | _ \<Rightarrow> None))
           | VARTYPE_OTHER _ \<Rightarrow> Some (ENOTSUP, s))
      | _ \<Rightarrow> Some (EINVAL, s))"

definition GreaterThanOrEqual :: "'w env \<Rightarrow> 'w handler" where
  "GreaterThanOrEqual env hVarServer pResult pLeft pRight s =
     (case (hVarServer, pResult, pLeft, pRight) of
        (Some _, Some res, Some l, Some r) \<Rightarrow>
          (case type (Obj s l) of
             VARTYPE_UINT32 \<Rightarrow>
               Some (EOK, store_bool res (val_ul (Obj s l) \<ge> val_ul (Obj s r)) s)
           | VARTYPE_UINT16 \<Rightarrow>
               Some (EOK, store_bool res (val_ui (Obj s l) \<ge> val_ui (Obj s r)) s)
           | VARTYPE_FLOAT \<Rightarrow>
               Some (EOK, store_bool res (f_le env (val_f (Obj s r)) (val_f (Obj s l))) s)
           | VARTYPE_STR \<Rightarrow>
               (case (val_str (Obj s l), val_str (Obj s r)) of
                  (None, None) \<Rightarrow> Some (EOK, store_bool res True s)
                | (None, Some _) \<Rightarrow> Some (EOK, store_bool res False s)
                | (Some _, None) \<Rightarrow> Some (EOK, store_bool res True s)
                | (Some _, Some _) \<Rightarrow>
                    (case (string_at s (val_str (Obj s l)), string_at s (val_str (Obj s r))) of
                       (Some a, Some b) \<Rightarrow> Some (EOK, store_bool res (strcmp a b \<ge> 0) s)
                     | _ \<Rightarrow> None))
           | VARTYPE_OTHER _ \<Rightarrow> Some (ENOTSUP, s))
      | _ \<Rightarrow> Some (EINVAL, s))"

definition LessThanOrEqual :: "'w env \<Rightarrow> 'w handler" where
  "LessThanOrEqual env hVarServer pResult pLeft pRight s =
     (case (hVarServer, pResult, pLeft, pRight) of
        (Some _, Some res, Some l, Some r) \<Rightarrow>
          (case type (Obj s l) of
             VARTYPE_UINT32 \<Rightarrow>
               Some (EOK, store_bool res (val_ul (Obj s l) \<le> val_ul (Obj s r)) s)
           | VARTYPE_UINT16 \<Rightarrow>
               Some (EOK, store_bool res (val_ui (Obj s l) \<le> val_ui (Obj s r)) s)
           | VARTYPE_FLOAT \<Rightarrow>
               Some (EOK, store_bool res (f_le env (val_f (Obj s l)) (val_f (Obj s r))) s)
           | VARTYPE_STR \<Rightarrow>
               (case (val_str (Obj s l), val_str (Obj s r)) of
                  (None, None) \<Rightarrow> Some (EOK, store_bool res True s)
                | (None, Some _) \<Rightarrow> Some (EOK, store_bool res True s)
                | (Some _, None) \<Rightarrow> Some (EOK, store_bool res False s)
                | (Some _, Some _) \<Rightarrow>
                    (case (string_at s (val_str (Obj s l)), string_at s (val_str (Obj s r))) of
                       (Some a, Some b) \<Rightarrow> Some (EOK, store_bool res (strcmp a b \<le> 0) s)
                     | _ \<Rightarrow> None))
           | VARTYPE_OTHER _ \<Rightarrow> Some (ENOTSUP, s))
      | _ \<Rightarrow> Some (EINVAL, s))"

section \<open>varassign.c\<close>

text \<open>
  The block that closes every assignment handler:
  \<open>if( result == EOK ) { if ( pLeft->operation == VA_SYSVAR ) {
  result = VAR_Set( hVarServer, pLeft->hVar, &(pLeft->obj) ); } }\<close>
\<close>

definition write_back :: "'w env \<Rightarrow> nat \<Rightarrow> addr \<Rightarrow> int \<Rightarrow> 'w state \<Rightarrow> int \<times> 'w state" where
  "write_back env h l result s =
     (if result = EOK \<and> operation (vars s l) = VA_SYSVAR then
        (case VAR_Set env (world s) h (hVar (vars s l)) (Obj s l) of
           (rc, w) \<Rightarrow> (rc, s\<lparr>world := w\<rparr>))
      else (result, s))"

definition Assign :: "'w env \<Rightarrow> 'w handler" where
  "Assign env hVarServer pResult pLeft pRight s =
     (case (hVarServer, pResult, pLeft, pRight) of
        (Some h, Some res, Some l, Some r) \<Rightarrow>
          (case type (Obj s l) of
             VARTYPE_UINT32 \<Rightarrow>
               let s1 = set_obj l (\<lambda>ob. ob\<lparr>val_ul := val_ul (Obj s r)\<rparr>) s;
                   s2 = result_ul res (val_ul (Obj s1 l)) s1
               in Some (write_back env h l EOK s2)
           | VARTYPE_UINT16 \<Rightarrow>
               let s1 = set_obj l (\<lambda>ob. ob\<lparr>val_ui := val_ui (Obj s r)\<rparr>) s;
                   s2 = result_ui res (val_ui (Obj s1 l)) s1
               in Some (write_back env h l EOK s2)
           | VARTYPE_FLOAT \<Rightarrow>
               let s1 = set_obj l (\<lambda>ob. ob\<lparr>val_f := val_f (Obj s r)\<rparr>) s;
                   s2 = result_f res (val_f (Obj s1 l)) s1
               in Some (write_back env h l EOK s2)
           | VARTYPE_STR \<Rightarrow>
               (case AssignString env pResult pLeft pRight s of
                  None \<Rightarrow> None
                | Some (result, s1) \<Rightarrow> Some (write_back env h l result s1))
           | _ \<Rightarrow> Some (ENOTSUP, s))
      | _ \<Rightarrow> Some (EINVAL, s))"

definition PlusEquals :: "'w env \<Rightarrow> 'w handler" where
  "PlusEquals env hVarServer pResult pLeft pRight s =
     (case (hVarServer, pResult, pLeft, pRight) of
        (Some h, Some res, Some l, Some r) \<Rightarrow>
          (case type (Obj s l) of
             VARTYPE_UINT32 \<Rightarrow>
               let s1 = set_obj l (\<lambda>ob. ob\<lparr>val_ul := val_ul (Obj s l) + val_ul (Obj s r)\<rparr>) s;
                   s2 = result_ul res (val_ul (Obj s1 l)) s1
               in Some (write_back env h l EOK s2)
           | VARTYPE_UINT16 \<Rightarrow>
               let s1 = set_obj l (\<lambda>ob. ob\<lparr>val_ui := val_ui (Obj s l) + val_ui (Obj s r)\<rparr>) s;
                   s2 = result_ui res (val_ui (Obj s1 l)) s1
               in Some (write_back env h l EOK s2)
           | VARTYPE_FLOAT \<Rightarrow>
               let s1 = set_obj l (\<lambda>ob. ob\<lparr>val_f := f_add env (val_f (Obj s l)) (val_f (Obj s r))\<rparr>) s;
                   s2 = result_f res (val_f (Obj s1 l)) s1
               in Some (write_back env h l EOK s2)
           | VARTYPE_STR \<Rightarrow>
               (case ConcatString env pResult pLeft pRight s of
                  None \<Rightarrow> None
                | Some (result, s1) \<Rightarrow> Some (write_back env h l result s1))
           | _ \<Rightarrow> Some (ENOTSUP, s))
      | _ \<Rightarrow> Some (EINVAL, s))"

definition MinusEquals :: "'w env \<Rightarrow> 'w handler" where
  "MinusEquals env hVarServer pResult pLeft pRight s =
     (case (hVarServer, pResult, pLeft, pRight) of
        (Some h, Some res, Some l, Some r) \<Rightarrow>
          (case type (Obj s l) of
             VARTYPE_UINT32 \<Rightarrow>
               let s1 = set_obj l (\<lambda>ob. ob\<lparr>val_ul := val_ul (Obj s l) - val_ul (Obj s r)\<rparr>) s;
                   s2 = result_ul res (val_ul (Obj s1 l)) s1
               in Some (write_back env h l EOK s2)
           | VARTYPE_UINT16 \<Rightarrow>
               let s1 = set_obj l (\<lambda>ob. ob\<lparr>val_ui := val_ui (Obj s l) - val_ui (Obj s r)\<rparr>) s;
                   s2 = result_ui res (val_ui (Obj s1 l)) s1
               in Some (write_back env h l EOK s2)
           | VARTYPE_FLOAT \<Rightarrow>
               let s1 = set_obj l (\<lambda>ob. ob\<lparr>val_f := f_sub env (val_f (Obj s l)) (val_f (Obj s r))\<rparr>) s;
                   s2 = result_f res (val_f (Obj s1 l)) s1
               in Some (write_back env h l EOK s2)
           | _ \<Rightarrow> Some (ENOTSUP, s))
      | _ \<Rightarrow> Some (EINVAL, s))"

definition TimesEquals :: "'w env \<Rightarrow> 'w handler" where
  "TimesEquals env hVarServer pResult pLeft pRight s =
     (case (hVarServer, pResult, pLeft, pRight) of
        (Some h, Some res, Some l, Some r) \<Rightarrow>
          (case type (Obj s l) of
             VARTYPE_UINT32 \<Rightarrow>
               let s1 = set_obj l (\<lambda>ob. ob\<lparr>val_ul := val_ul (Obj s l) * val_ul (Obj s r)\<rparr>) s;
                   s2 = result_ul res (val_ul (Obj s1 l)) s1
               in Some (write_back env h l EOK s2)
           | VARTYPE_UINT16 \<Rightarrow>
               let s1 = set_obj l (\<lambda>ob. ob\<lparr>val_ui := val_ui (Obj s l) * val_ui (Obj s r)\<rparr>) s;
                   s2 = result_ui res (val_ui (Obj s1 l)) s1
               in Some (write_back env h l EOK s2)
           | VARTYPE_FLOAT \<Rightarrow>
               let s1 = set_obj l (\<lambda>ob. ob\<lparr>val_f := f_mul env (val_f (Obj s l)) (val_f (Obj s r))\<rparr>) s;
                   s2 = result_f res (val_f (Obj s1 l)) s1
               in Some (write_back env h l EOK s2)
           | _ \<Rightarrow> Some (ENOTSUP, s))
      | _ \<Rightarrow> Some (EINVAL, s))"

definition DivEquals :: "'w env \<Rightarrow> 'w handler" where
  "DivEquals env hVarServer pResult pLeft pRight s =
     (case (hVarServer, pResult, pLeft, pRight) of
        (Some h, Some res, Some l, Some r) \<Rightarrow>
          (case type (Obj s l) of
             VARTYPE_UINT32 \<Rightarrow>
               if val_ul (Obj s r) = 0 then None
               else let s1 = set_obj l (\<lambda>ob. ob\<lparr>val_ul := val_ul (Obj s l) div val_ul (Obj s r)\<rparr>) s;
                   s2 = result_ul res (val_ul (Obj s1 l)) s1
               in Some (write_back env h l EOK s2)
           | VARTYPE_UINT16 \<Rightarrow>
               if val_ui (Obj s r) = 0 then None
               else let s1 = set_obj l (\<lambda>ob. ob\<lparr>val_ui := val_ui (Obj s l) div val_ui (Obj s r)\<rparr>) s;
                   s2 = result_ui res (val_ui (Obj s1 l)) s1
               in Some (write_back env h l EOK s2)
           | VARTYPE_FLOAT \<Rightarrow>
               let s1 = set_obj l (\<lambda>ob. ob\<lparr>val_f := f_div env (val_f (Obj s l)) (val_f (Obj s r))\<rparr>) s;
                   s2 = result_f res (val_f (Obj s1 l)) s1
               in Some (write_back env h l EOK s2)
           | _ \<Rightarrow> Some (ENOTSUP, s))
      | _ \<Rightarrow> Some (EINVAL, s))"

definition AndEquals :: "'w env \<Rightarrow> 'w handler" where
  "AndEquals env hVarServer pResult pLeft pRight s =
     (case (hVarServer, pResult, pLeft, pRight) of
        (Some h, Some res, Some l, Some r) \<Rightarrow>
          (case type (Obj s l) of
             VARTYPE_UINT32 \<Rightarrow>
               let s1 = set_obj l (\<lambda>ob. ob\<lparr>val_ul := val_ul (Obj s l) AND val_ul (Obj s r)\<rparr>) s;
                   s2 = result_ul res (val_ul (Obj s1 l)) s1
               in Some (write_back env h l EOK s2)
           | VARTYPE_UINT16 \<Rightarrow>
               let s1 = set_obj l (\<lambda>ob. ob\<lparr>val_ui := val_ui (Obj s l) AND val_ui (Obj s r)\<rparr>) s;
                   s2 = result_ui res (val_ui (Obj s1 l)) s1
               in Some (write_back env h l EOK s2)
           | _ \<Rightarrow> Some (ENOTSUP, s))
      | _ \<Rightarrow> Some (EINVAL, s))"

definition OrEquals :: "'w env \<Rightarrow> 'w handler" where
  "OrEquals env hVarServer pResult pLeft pRight s =
     (case (hVarServer, pResult, pLeft, pRight) of
        (Some h, Some res, Some l, Some r) \<Rightarrow>
          (case type (Obj s l) of
             VARTYPE_UINT32 \<Rightarrow>
               let s1 = set_obj l (\<lambda>ob. ob\<lparr>val_ul := val_ul (Obj s l) OR val_ul (Obj s r)\<rparr>) s;
                   s2 = result_ul res (val_ul (Obj s1 l)) s1
               in Some (write_back env h l EOK s2)
           | VARTYPE_UINT16 \<Rightarrow>
               let s1 = set_obj l (\<lambda>ob. ob\<lparr>val_ui := val_ui (Obj s l) OR val_ui (Obj s r)\<rparr>) s;
                   s2 = result_ui res (val_ui (Obj s1 l)) s1
               in Some (write_back env h l EOK s2)
           | _ \<Rightarrow> Some (ENOTSUP, s))
      | _ \<Rightarrow> Some (EINVAL, s))"

definition XorEquals :: "'w env \<Rightarrow> 'w handler" where
  "XorEquals env hVarServer pResult pLeft pRight s =
     (case (hVarServer, pResult, pLeft, pRight) of
        (Some h, Some res, Some l, Some r) \<Rightarrow>
          (case type (Obj s l) of
             VARTYPE_UINT32 \<Rightarrow>
               let s1 = set_obj l (\<lambda>ob. ob\<lparr>val_ul := val_ul (Obj s l) XOR val_ul (Obj s r)\<rparr>) s;
                   s2 = result_ul res (val_ul (Obj s1 l)) s1
               in Some (write_back env h l EOK s2)
           | VARTYPE_UINT16 \<Rightarrow>
               let s1 = set_obj l (\<lambda>ob. ob\<lparr>val_ui := val_ui (Obj s l) XOR val_ui (Obj s r)\<rparr>) s;
                   s2 = result_ui res (val_ui (Obj s1 l)) s1
               in Some (write_back env h l EOK s2)
           | _ \<Rightarrow> Some (ENOTSUP, s))
      | _ \<Rightarrow> Some (EINVAL, s))"

text \<open>
  \<open>Inc\<close> and \<open>Dec\<close>: with a left operand \<open>result = left++\<close>, otherwise
  \<open>result = ++right\<close>.  Neither sets the type or the length of the result node.  The
  first function below is the part of the body that picks and changes the operand
  (\<open>pVar\<close> is its second result), the handler adds the test of the arguments around it
  and the write to the variable server after it.
\<close>

definition Inc_operand :: "addr \<Rightarrow> addr option \<Rightarrow> addr option \<Rightarrow> 'w state \<Rightarrow> int \<times> addr option \<times> 'w state" where
  "Inc_operand res pLeft pRight s =
     (case pLeft of
        Some l \<Rightarrow>
          (case type (Obj s l) of
             VARTYPE_UINT32 \<Rightarrow>
               let old = val_ul (Obj s l);
                   s1 = set_obj l (\<lambda>ob. ob\<lparr>val_ul := old + 1\<rparr>) s
               in (EOK, Some l, set_obj res (\<lambda>ob. ob\<lparr>val_ul := old\<rparr>) s1)
           | VARTYPE_UINT16 \<Rightarrow>
               let old = val_ui (Obj s l);
                   s1 = set_obj l (\<lambda>ob. ob\<lparr>val_ui := old + 1\<rparr>) s
               in (EOK, Some l, set_obj res (\<lambda>ob. ob\<lparr>val_ui := old\<rparr>) s1)
           | _ \<Rightarrow> (ENOTSUP, None, s))
      | None \<Rightarrow>
          (case pRight of
             Some r \<Rightarrow>
               (case type (Obj s r) of
                  VARTYPE_UINT32 \<Rightarrow>
                    let s1 = set_obj r (\<lambda>ob. ob\<lparr>val_ul := val_ul (Obj s r) + 1\<rparr>) s
                    in (EOK, Some r, set_obj res (\<lambda>ob. ob\<lparr>val_ul := val_ul (Obj s1 r)\<rparr>) s1)
                | VARTYPE_UINT16 \<Rightarrow>
                    let s1 = set_obj r (\<lambda>ob. ob\<lparr>val_ui := val_ui (Obj s r) + 1\<rparr>) s
                    in (EOK, Some r, set_obj res (\<lambda>ob. ob\<lparr>val_ui := val_ui (Obj s1 r)\<rparr>) s1)
                | _ \<Rightarrow> (ENOTSUP, None, s))
           | None \<Rightarrow> (EOK, None, s)))"

definition Inc :: "'w env \<Rightarrow> 'w handler" where
  "Inc env hVarServer pResult pLeft pRight s =
     (case (hVarServer, pResult, pLeft, pRight) of
        (None, _, _, _) \<Rightarrow> Some (EINVAL, s)
      | (_, None, _, _) \<Rightarrow> Some (EINVAL, s)
      | (_, _, None, None) \<Rightarrow> Some (EINVAL, s)
      | (Some h, Some res, _, _) \<Rightarrow>
          (case Inc_operand res pLeft pRight s of
             (result, pVar, s2) \<Rightarrow>
               (case pVar of
                  Some v \<Rightarrow>
                    if operation (vars s2 v) = VA_SYSVAR then
                      (case VAR_Set env (world s2) h (hVar (vars s2 v)) (Obj s2 v) of
                         (rc, w) \<Rightarrow> Some (rc, s2\<lparr>world := w\<rparr>))
                    else Some (result, s2)
                | None \<Rightarrow> Some (result, s2))))"

definition Dec_operand :: "addr \<Rightarrow> addr option \<Rightarrow> addr option \<Rightarrow> 'w state \<Rightarrow> int \<times> addr option \<times> 'w state" where
  "Dec_operand res pLeft pRight s =
     (case pLeft of
        Some l \<Rightarrow>
          (case type (Obj s l) of
             VARTYPE_UINT32 \<Rightarrow>
               let old = val_ul (Obj s l);
                   s1 = set_obj l (\<lambda>ob. ob\<lparr>val_ul := old - 1\<rparr>) s
               in (EOK, Some l, set_obj res (\<lambda>ob. ob\<lparr>val_ul := old\<rparr>) s1)
           | VARTYPE_UINT16 \<Rightarrow>
               let old = val_ui (Obj s l);
                   s1 = set_obj l (\<lambda>ob. ob\<lparr>val_ui := old - 1\<rparr>) s
               in (EOK, Some l, set_obj res (\<lambda>ob. ob\<lparr>val_ui := old\<rparr>) s1)
           | _ \<Rightarrow> (ENOTSUP, None, s))
      | None \<Rightarrow>
          (case pRight of
             Some r \<Rightarrow>
               (case type (Obj s r) of
                  VARTYPE_UINT32 \<Rightarrow>
                    let s1 = set_obj r (\<lambda>ob. ob\<lparr>val_ul := val_ul (Obj s r) - 1\<rparr>) s
                    in (EOK, Some r, set_obj res (\<lambda>ob. ob\<lparr>val_ul := val_ul (Obj s1 r)\<rparr>) s1)
                | VARTYPE_UINT16 \<Rightarrow>
                    let s1 = set_obj r (\<lambda>ob. ob\<lparr>val_ui := val_ui (Obj s r) - 1\<rparr>) s
                    in (EOK, Some r, set_obj res (\<lambda>ob. ob\<lparr>val_ui := val_ui (Obj s1 r)\<rparr>) s1)
                | _ \<Rightarrow> (ENOTSUP, None, s))
           | None \<Rightarrow> (EOK, None, s)))"

definition Dec :: "'w env \<Rightarrow> 'w handler" where
  "Dec env hVarServer pResult pLeft pRight s =
     (case (hVarServer, pResult, pLeft, pRight) of
        (None, _, _, _) \<Rightarrow> Some (EINVAL, s)
      | (_, None, _, _) \<Rightarrow> Some (EINVAL, s)
      | (_, _, None, None) \<Rightarrow> Some (EINVAL, s)
      | (Some h, Some res, _, _) \<Rightarrow>
          (case Dec_operand res pLeft pRight s of
             (result, pVar, s2) \<Rightarrow>
               (case pVar of
                  Some v \<Rightarrow>
                    if operation (vars s2 v) = VA_SYSVAR then
                      (case VAR_Set env (world s2) h (hVar (vars s2 v)) (Obj s2 v) of
                         (rc, w) \<Rightarrow> Some (rc, s2\<lparr>world := w\<rparr>))
                    else Some (result, s2)
                | None \<Rightarrow> Some (result, s2))))"


section \<open>vartimer.c\<close>

text \<open>
  \<open>timer_delete\<close> is called on whatever the slot holds; its return value decides between
  \<open>EOK\<close> and the \<open>errno\<close> it left.
\<close>

definition VADeleteTimer :: "'w env \<Rightarrow> 'w handler" where
  "VADeleteTimer env hVarServer pResult pLeft pRight s =
     (case (hVarServer, pResult, pLeft) of
        (Some _, Some res, Some l) \<Rightarrow>
          let tid = uint (val_ui (Obj s l)) in
          (case (if 0 < tid \<and> tid < MAX_TIMERS then
                   (case timer_delete env (world s) (timers s tid) of
                      (rv, errno, w) \<Rightarrow> (if rv = 0 then EOK else errno, s\<lparr>world := w\<rparr>))
                 else (ENOENT, s)) of
             (result, s1) \<Rightarrow>
               Some (result, result_ui res (if result = EOK then 1 else 0) s1))
      | _ \<Rightarrow> Some (EINVAL, s))"

text \<open>
  The timeout is the 32-bit member read into an \<open>int\<close>; \<open>/\<close> and \<open>%\<close> of C truncate
  towards zero.  The values passed to \<open>timer_settime\<close> are the interval (seconds,
  nanoseconds) and the first expiry (seconds, nanoseconds).  The return values of
  \<open>timer_create\<close>, \<open>timer_settime\<close> and of the inner \<open>VADeleteTimer\<close> are not looked at.
\<close>

definition VACreateTimer :: "'w env \<Rightarrow> 'w handler" where
  "VACreateTimer env hVarServer pResult pLeft pRight s =
     (case (hVarServer, pResult, pLeft, pRight) of
        (Some _, Some res, Some l, Some r) \<Rightarrow>
          let tid = uint (val_ui (Obj s l));
              timeoutms = sint (val_ul (Obj s r));
              secs = timeoutms sdiv 1000;
              msecs = timeoutms smod 1000
          in if 0 < tid \<and> tid < MAX_TIMERS then
               (case (if timers s tid \<noteq> 0
                      then VADeleteTimer env hVarServer pResult pLeft pRight s
                      else Some (EOK, s)) of
                  None \<Rightarrow> None
                | Some (_, s1) \<Rightarrow>
                    (case timer_create env (world s1) tid of
                       (created, w1) \<Rightarrow>
                         let s2 = (case created of
                                     Some tm \<Rightarrow> s1\<lparr>timers := (timers s1)(tid := tm), world := w1\<rparr>
                                   | None \<Rightarrow> s1\<lparr>world := w1\<rparr>);
                             s3 = s2\<lparr>world := timer_settime env (world s2) (timers s2 tid)
                                                (0, 0, secs, msecs * 1000000)\<rparr>
                         in Some (EOK, result_ui res 1 s3)))
             else Some (ENOENT, result_ui res 0 s)
      | _ \<Rightarrow> Some (EINVAL, s))"

definition VACreateTick :: "'w env \<Rightarrow> 'w handler" where
  "VACreateTick env hVarServer pResult pLeft pRight s =
     (case (hVarServer, pResult, pLeft, pRight) of
        (Some _, Some res, Some l, Some r) \<Rightarrow>
          let tid = uint (val_ui (Obj s l));
              timeoutms = sint (val_ul (Obj s r));
              secs = timeoutms sdiv 1000;
              msecs = timeoutms smod 1000
          in if 0 < tid \<and> tid < MAX_TIMERS then
               (case (if timers s tid \<noteq> 0
                      then VADeleteTimer env hVarServer pResult pLeft pRight s
                      else Some (EOK, s)) of
                  None \<Rightarrow> None
                | Some (_, s1) \<Rightarrow>
                    (case timer_create env (world s1) tid of
                       (created, w1) \<Rightarrow>
                         let s2 = (case created of
                                     Some tm \<Rightarrow> s1\<lparr>timers := (timers s1)(tid := tm), world := w1\<rparr>
                                   | None \<Rightarrow> s1\<lparr>world := w1\<rparr>);
                             s3 = s2\<lparr>world := timer_settime env (world s2) (timers s2 tid)
                                                (secs, msecs * 1000000, secs, msecs * 1000000)\<rparr>
                         in Some (EOK, result_ui res 1 s3)))
             else Some (ENOENT, result_ui res 0 s)
      | _ \<Rightarrow> Some (EINVAL, s))"

definition VAGetActiveTimer :: "'w env \<Rightarrow> 'w handler" where
  "VAGetActiveTimer env hVarServer pResult pLeft pRight s =
     (case pResult of
        Some res \<Rightarrow> Some (EOK, result_ui res (activeTimer s) s)
      | None \<Rightarrow> Some (EINVAL, s))"

definition VASetActiveTimer :: "16 word \<Rightarrow> 'w state \<Rightarrow> 'w state" where
  "VASetActiveTimer tid s = s\<lparr>activeTimer := tid\<rparr>"


section \<open>varaction.c\<close>

definition GetVar :: "'w env \<Rightarrow> 'w handler" where
  "GetVar env hVarServer pVariable pLeft pRight s =
     (case (hVarServer, pVariable) of
        (Some h, Some p) \<Rightarrow>
          if hVar (vars s p) \<noteq> VAR_INVALID \<and> operation (vars s p) = VA_SYSVAR then
            if \<not> lvalue (vars s p) then
              (case VAR_Get env (world s) h (hVar (vars s p)) (Obj s p) of
                 (rc, ob, w) \<Rightarrow> Some (rc, set_obj p (\<lambda>_. ob) (s\<lparr>world := w\<rparr>)))
            else Some (EOK, s)
          else Some (EINVAL, s)
      | _ \<Rightarrow> Some (EINVAL, s))"

definition Unsupported :: "'w env \<Rightarrow> 'w handler" where
  "Unsupported env hVarServer pVariable pLeft pRight s =
     (case pVariable of
        Some _ \<Rightarrow> Some (ENOTSUP, s)
      | None \<Rightarrow> Some (EINVAL, s))"

definition NOP :: "'w env \<Rightarrow> 'w handler" where
  "NOP env hVarServer pVariable pLeft pRight s = Some (EOK, s)"

text \<open>
  \<open>InitVarAction\<close> fills the table with \<open>Unsupported\<close> and then sets the entries one by
  one, in the order of the source.
\<close>

definition InitVarAction :: "'w state \<Rightarrow> 'w state" where
  "InitVarAction s = s\<lparr>va_op :=
     (\<lambda>i. if 0 \<le> i \<and> i < VA_OP_MAX then Some Fn_Unsupported else va_op s i)
       (VA_ASSIGN := Some Fn_Assign,
        VA_MUL := Some Fn_Multiply,
        VA_DIV := Some Fn_Divide,
        VA_ADD := Some Fn_Add,
        VA_SUB := Some Fn_Sub,
        VA_BAND := Some Fn_Band,
        VA_BOR := Some Fn_Bor,
        VA_XOR := Some Fn_Xor,
        VA_INC := Some Fn_Inc,
        VA_DEC := Some Fn_Dec,
        VA_LSHIFT := Some Fn_LShift,
        VA_RSHIFT := Some Fn_RShift,
        VA_AND := Some Fn_And,
        VA_OR := Some Fn_Or,
        VA_NOT := Some Fn_Not,
        VA_EQUALS := Some Fn_Equals,
        VA_NOTEQUALS := Some Fn_NotEquals,
        VA_GT := Some Fn_GreaterThan,
        VA_LT := Some Fn_LessThan,
        VA_GTE := Some Fn_GreaterThanOrEqual,
        VA_LTE := Some Fn_LessThanOrEqual,
        VA_AND_EQUALS := Some Fn_AndEquals,
        VA_OR_EQUALS := Some Fn_AndEquals,
        VA_XOR_EQUALS := Some Fn_XorEquals,
        VA_DIV_EQUALS := Some Fn_DivEquals,
        VA_TIMES_EQUALS := Some Fn_TimesEquals,
        VA_PLUS_EQUALS := Some Fn_PlusEquals,
        VA_MINUS_EQUALS := Some Fn_MinusEquals,
        VA_SYSVAR := Some Fn_GetVar,
        VA_TOFLOAT := Some Fn_ToFloat,
        VA_TOSTRING := Some Fn_ToString,
        VA_TOSHORT := Some Fn_ToShort,
        VA_TOINT := Some Fn_ToInt,
        VA_NUM := Some Fn_NOP,
        VA_FLOATNUM := Some Fn_NOP,
        VA_LOCALVAR := Some Fn_NOP,
        VA_STRING := Some Fn_NOP,
        VA_CREATE_TICK := Some Fn_VACreateTick,
        VA_CREATE_TIMER := Some Fn_VACreateTimer,
        VA_DELETE_TIMER := Some Fn_VADeleteTimer,
        VA_ACTIVE_TIMER := Some Fn_VAGetActiveTimer,
        VA_TIMER := Some Fn_NOP)\<rparr>"

text \<open>The call through a function pointer of the table.\<close>

definition call :: "'w env \<Rightarrow> opfn \<Rightarrow> 'w handler" where
  "call env fn =
     (case fn of
        Fn_Unsupported \<Rightarrow> Unsupported env
      | Fn_NOP \<Rightarrow> NOP env
      | Fn_GetVar \<Rightarrow> GetVar env
      | Fn_Assign \<Rightarrow> Assign env
      | Fn_Multiply \<Rightarrow> Multiply env
      | Fn_Divide \<Rightarrow> Divide env
      | Fn_Add \<Rightarrow> Add env
      | Fn_Sub \<Rightarrow> Sub env
      | Fn_Inc \<Rightarrow> Inc env
      | Fn_Dec \<Rightarrow> Dec env
      | Fn_Equals \<Rightarrow> Equals env
      | Fn_NotEquals \<Rightarrow> NotEquals env
      | Fn_GreaterThan \<Rightarrow> GreaterThan env
      | Fn_LessThan \<Rightarrow> LessThan env
      | Fn_GreaterThanOrEqual \<Rightarrow> GreaterThanOrEqual env
      | Fn_LessThanOrEqual \<Rightarrow> LessThanOrEqual env
      | Fn_AndEquals \<Rightarrow> AndEquals env
      | Fn_OrEquals \<Rightarrow> OrEquals env
      | Fn_XorEquals \<Rightarrow> XorEquals env
      | Fn_DivEquals \<Rightarrow> DivEquals env
      | Fn_TimesEquals \<Rightarrow> TimesEquals env
      | Fn_PlusEquals \<Rightarrow> PlusEquals env
      | Fn_MinusEquals \<Rightarrow> MinusEquals env
      | Fn_VACreateTick \<Rightarrow> VACreateTick env
      | Fn_VACreateTimer \<Rightarrow> VACreateTimer env
      | Fn_VADeleteTimer \<Rightarrow> VADeleteTimer env
      | Fn_VAGetActiveTimer \<Rightarrow> VAGetActiveTimer env
      | _ \<Rightarrow> other_handler env fn)"

definition ProcessScript :: "'w env \<Rightarrow> string option \<Rightarrow> 'w state \<Rightarrow> int \<times> 'w state" where
  "ProcessScript env script s =
     (case script of
        Some cmd \<Rightarrow> (EOK, s\<lparr>world := system env (world s) cmd\<rparr>)
      | None \<Rightarrow> (EINVAL, s))"

text \<open>A pointer to a \<open>Variable\<close> as the handlers take it: the address of the node.\<close>

fun address :: "Link \<Rightarrow> addr option" where
  "address (ToVariable (Node a l r)) = Some a"
| "address _ = None"

text \<open>A null pointer is \<open>Null\<close>, or the statement list with no statement.\<close>

fun is_null :: "Link \<Rightarrow> bool" where
  "is_null Null = True"
| "is_null (ToStatements []) = True"
| "is_null _ = False"

text \<open>\<open>opname\<close> has \<open>VA_OP_MAX\<close> entries; the diagnostics index it with the operation.\<close>

definition opname_defined :: "int \<Rightarrow> bool" where
  "opname_defined op = (0 \<le> op \<and> op < VA_OP_MAX)"

text \<open>
  The evaluator.  \<open>statement_loop\<close> is the \<open>while\<close> loop of \<open>ProcessCompoundStatement\<close>
  with the local \<open>result\<close> as argument; \<open>ProcessStatement\<close> takes the statement the loop
  is at.  A pointer to a statement read as a \<open>Variable\<close>, or the other way round, has no
  meaning.  \<open>ProcessIF\<close> declares \<open>int rc;\<close> without a value and returns it when its
  test of the arguments fails: the value is the one the environment gives.  The text
  written to \<open>stderr\<close> is not modelled, the read of \<open>opname\<close> for it is.
\<close>

function (sequential) ProcessCompoundStatement :: "'w env \<Rightarrow> VARSERVER_HANDLE \<Rightarrow> Statement list \<Rightarrow> 'w state \<Rightarrow> 'w outcome"
and statement_loop :: "'w env \<Rightarrow> VARSERVER_HANDLE \<Rightarrow> Statement list \<Rightarrow> int \<Rightarrow> 'w state \<Rightarrow> 'w outcome"
and ProcessStatement :: "'w env \<Rightarrow> VARSERVER_HANDLE \<Rightarrow> Statement \<Rightarrow> 'w state \<Rightarrow> 'w outcome"
and ProcessVariable :: "'w env \<Rightarrow> VARSERVER_HANDLE \<Rightarrow> Link \<Rightarrow> 'w state \<Rightarrow> 'w outcome"
and ProcessIF :: "'w env \<Rightarrow> VARSERVER_HANDLE \<Rightarrow> Link \<Rightarrow> Link \<Rightarrow> 'w state \<Rightarrow> 'w outcome"
and ProcessExpr :: "'w env \<Rightarrow> VARSERVER_HANDLE \<Rightarrow> Link \<Rightarrow> 'w state \<Rightarrow> 'w outcome"
where
  "ProcessCompoundStatement env hVarServer pStatements s =
     (if hVarServer \<noteq> None \<and> pStatements \<noteq> []
      then statement_loop env hVarServer pStatements EOK s
      else Some (EINVAL, s))"
| "statement_loop env hVarServer [] result s = Some (result, s)"
| "statement_loop env hVarServer (pStatement # pNext) result s =
     (case ProcessStatement env hVarServer pStatement s of
        None \<Rightarrow> None
      | Some (rc, s1) \<Rightarrow>
          statement_loop env hVarServer pNext (if rc \<noteq> EOK then rc else result) s1)"
| "ProcessStatement env hVarServer (Statement pVariable script line) s =
     (if hVarServer \<noteq> None then
        if \<not> is_null pVariable then ProcessVariable env hVarServer pVariable s
        else if script \<noteq> None then Some (ProcessScript env script s)
        else Some (ENOTSUP, s)
      else Some (EINVAL, s))"
| "ProcessVariable env hVarServer (ToVariable (Node a left right)) s =
     (if hVarServer \<noteq> None then
        (case (if operation (vars s a) = VA_IF
               then ProcessIF env hVarServer left right s
               else ProcessExpr env hVarServer (ToVariable (Node a left right)) s) of
           None \<Rightarrow> None
         | Some (result, s1) \<Rightarrow>
             if result \<noteq> EOK \<and> \<not> opname_defined (operation (vars s1 a)) then None
             else Some (result, s1))
      else Some (EINVAL, s))"
| "ProcessVariable env hVarServer (ToStatements pStatements) s =
     (if hVarServer \<noteq> None \<and> pStatements \<noteq> [] then None else Some (EINVAL, s))"
| "ProcessVariable env hVarServer Null s = Some (EINVAL, s)"
| "ProcessIF env hVarServer left (ToVariable (Node b then_link else_link)) s =
     (if \<not> is_null left \<and> operation (vars s b) = VA_ELSE then
        (case ProcessVariable env hVarServer left s of
           None \<Rightarrow> None
         | Some (rc, s1) \<Rightarrow>
             if rc = EOK then
               (case address left of
                  None \<Rightarrow> None
                | Some c \<Rightarrow>
                    if val_ui (Obj s1 c) \<noteq> 0 then
                      (case then_link of
                         ToVariable _ \<Rightarrow> None
                       | ToStatements pCompoundStatement \<Rightarrow>
                           ProcessCompoundStatement env hVarServer pCompoundStatement s1
                       | Null \<Rightarrow> ProcessCompoundStatement env hVarServer [] s1)
                    else if \<not> is_null else_link then
                      (case else_link of
                         ToVariable _ \<Rightarrow> None
                       | ToStatements pCompoundStatement \<Rightarrow>
                           ProcessCompoundStatement env hVarServer pCompoundStatement s1
                       | Null \<Rightarrow> ProcessCompoundStatement env hVarServer [] s1)
                    else Some (EOK, s1))
             else Some (rc, s1))
      else Some (uninit_int env (world s), s))"
| "ProcessIF env hVarServer left (ToStatements pStatements) s =
     (if \<not> is_null left \<and> pStatements \<noteq> [] then None
      else Some (uninit_int env (world s), s))"
| "ProcessIF env hVarServer left Null s = Some (uninit_int env (world s), s)"
| "ProcessExpr env hVarServer (ToVariable (Node a left right)) s =
     (if hVarServer \<noteq> None then
        (case ProcessVariable env hVarServer right s of
           None \<Rightarrow> None
         | Some (lrc, s1) \<Rightarrow>
             (case ProcessVariable env hVarServer left s1 of
                None \<Rightarrow> None
              | Some (rrc, s2) \<Rightarrow>
                  let op = operation (vars s2 a) in
                  if op < VA_OP_MAX then
                    if op < 0 then None
                    else
                      (case va_op s2 op of
                         Some fn \<Rightarrow>
                           call env fn hVarServer (Some a) (address left) (address right) s2
                       | None \<Rightarrow> Some (EINVAL, s2))
                  else Some (ENOTSUP, s2)))
      else Some (EINVAL, s))"
| "ProcessExpr env hVarServer (ToStatements pStatements) s =
     (if hVarServer \<noteq> None \<and> pStatements \<noteq> [] then None else Some (EINVAL, s))"
| "ProcessExpr env hVarServer Null s = Some (EINVAL, s)"
  by pat_completeness auto

text \<open>Every call goes to a smaller part of the tree, or to a later stage at the same part.\<close>

termination
  by (relation "measure (\<lambda>x. case x of
          Inl (Inl (env, h, xs, s)) \<Rightarrow> 2 * size_list size xs + 2
        | Inl (Inr (Inl (env, h, xs, r, s))) \<Rightarrow> 2 * size_list size xs + 1
        | Inl (Inr (Inr (env, h, st, s))) \<Rightarrow> 2 * size st + 2
        | Inr (Inl (env, h, p, s)) \<Rightarrow> 2 * size p + 1
        | Inr (Inr (Inl (env, h, l, r, s))) \<Rightarrow> 2 * (size l + size r) + 2
        | Inr (Inr (Inr (env, h, p, s))) \<Rightarrow> 2 * size p)") auto

text \<open>\<open>SetTimer\<close> passes its \<open>int\<close> to \<open>VASetActiveTimer\<close>, which takes 16 bits of it.\<close>

definition SetTimer :: "int \<Rightarrow> 'w state \<Rightarrow> 'w state" where
  "SetTimer tid s = VASetActiveTimer (word_of_int tid) s"

text \<open>
  \<open>NewString\<close>: a zeroed \<open>Variable\<close> from \<open>calloc\<close> (tag 0 is none of the four value
  types), the pointer from \<open>strdup\<close>, which is \<open>NULL\<close> when its allocation fails, the
  length from \<open>strlen\<close>.
\<close>

definition zeroed :: Variable where
  "zeroed = \<lparr>operation = 0, lineno = 0, ident = None, local = False, assigned = False,
     lvalue = False, calcNotification = False, modifiedNotification = False, bufsize = 0,
     hVar = 0,
     obj = \<lparr>type = VARTYPE_OTHER 0, len = 0, val_ui = 0, val_ul = 0, val_f = 0, val_str = None\<rparr>\<rparr>"

definition NewString :: "'w env \<Rightarrow> string option \<Rightarrow> 'w state \<Rightarrow> addr option \<times> 'w state" where
  "NewString env str s =
     (case str of
        None \<Rightarrow> (None, s)
      | Some txt \<Rightarrow>
          (case calloc_Variable env (world s) of
             (None, w) \<Rightarrow> (None, s\<lparr>world := w\<rparr>)
           | (Some var, w) \<Rightarrow>
               let s1 = s\<lparr>vars := (vars s)(var := zeroed\<lparr>operation := VA_STRING\<rparr>), world := w\<rparr>
               in (case strdup env txt s1 of
                     (dup, s2) \<Rightarrow>
                       let s3 = set_obj var (\<lambda>ob. ob\<lparr>val_str := dup\<rparr>) s2;
                           s4 = set_obj var (\<lambda>ob. ob\<lparr>len := of_nat (length txt)\<rparr>) s3;
                           s5 = set_obj var (\<lambda>ob. ob\<lparr>type := VARTYPE_STR\<rparr>) s4
                       in (Some var, set_bufsize var (len (Obj s5 var)) s5))))"


section \<open>A statement list, statement by statement\<close>

text \<open>
  What the specification says of a statement list: every statement is processed in list
  order, each from the state the one before it left, whatever the codes are;
  \<open>statement_codes\<close> gives the code of each statement and the last state.  The code of
  the list is that of the most recent statement that failed, \<open>EOK\<close> when none did.
\<close>

fun statement_codes :: "'w env \<Rightarrow> VARSERVER_HANDLE \<Rightarrow> Statement list \<Rightarrow> 'w state \<Rightarrow> (int list \<times> 'w state) option" where
  "statement_codes env hVarServer [] s = Some ([], s)"
| "statement_codes env hVarServer (st # rest) s =
     (case ProcessStatement env hVarServer st s of
        None \<Rightarrow> None
      | Some (rc, s1) \<Rightarrow>
          (case statement_codes env hVarServer rest s1 of
             None \<Rightarrow> None
           | Some (rcs, s2) \<Rightarrow> Some (rc # rcs, s2)))"

definition last_failure :: "int list \<Rightarrow> int" where
  "last_failure rcs = (case filter (\<lambda>rc. rc \<noteq> EOK) rcs of [] \<Rightarrow> EOK | fs \<Rightarrow> last fs)"


section \<open>The compound assignments, by name\<close>





section \<open>A quiet environment and small cells for worked examples\<close>

text \<open>
  In \<open>env0\<close> the variable server accepts every read and write; the state of the outside
  is the next free address, and every allocation succeeds with a fresh block at that
  address, filled with NUL bytes (\<open>realloc\<close> always moves the block); \<open>timer_delete\<close>
  refuses the handle 0 with \<open>EINVAL\<close> as POSIX has it for a timer that does not exist; an
  uninitialised \<open>int\<close> happens to hold 0; the handlers that are not modelled report
  \<open>ENOTSUP\<close>.  \<open>env_set_fails\<close> differs in that the variable server refuses every write
  with \<open>ENOENT\<close>, \<open>env_timer_zero\<close> in that \<open>timer_delete\<close> accepts every handle, the
  handle 0 as well, as it does where 0 names a timer of the process.  \<open>state0\<close> is a
  process after \<open>InitVarAction\<close> with all cells zeroed, no character buffer, no timer, and
  the addresses from 100 on free.
\<close>

definition env0 :: "nat env" where
  "env0 = \<lparr>VAR_Get = (\<lambda>w h v ob. (EOK, ob, w)),
            VAR_Set = (\<lambda>w h v ob. (EOK, w)),
            system = (\<lambda>w cmd. w),
            timer_create = (\<lambda>w i. (Some 1, w)),
            timer_settime = (\<lambda>w tm x. w),
            timer_delete = (\<lambda>w tm. if tm = 0 then (-1, EINVAL, w) else (0, 0, w)),
            malloc = (\<lambda>w n. (Some (w, replicate n NUL), Suc w)),
            realloc = (\<lambda>w b n. (Some (w, replicate n NUL), Suc w)),
            calloc_Variable = (\<lambda>w. (Some w, Suc w)),
            f_add = (\<lambda>a b. 0), f_sub = (\<lambda>a b. 0), f_mul = (\<lambda>a b. 0), f_div = (\<lambda>a b. 0),
            f_eq = (\<lambda>a b. a = b), f_less = (\<lambda>a b. False), f_le = (\<lambda>a b. a = b),
            uninit_int = (\<lambda>w. 0),
            other_handler = (\<lambda>fn h p l r s. Some (ENOTSUP, s))\<rparr>"


definition env_timer_zero :: "nat env" where
  "env_timer_zero = env0\<lparr>timer_delete := (\<lambda>w tm. (0, 0, w))\<rparr>"

definition state0 :: "nat state" where
  "state0 = InitVarAction \<lparr>vars = (\<lambda>a. zeroed), bufs = (\<lambda>a. None), va_op = (\<lambda>i. None),
                             timers = (\<lambda>i. 0), activeTimer = 0, world = 100\<rparr>"

text \<open>
  A cell with the given operation holding a 16-bit value, a 32-bit value, or a string
  (its pointer, recorded length and recorded buffer size); \<open>put\<close> stores a cell and
  \<open>put_buf\<close> a character buffer.
\<close>

definition short_var :: "int \<Rightarrow> 16 word \<Rightarrow> Variable" where
  "short_var op v =
     zeroed\<lparr>operation := op, obj := (obj zeroed)\<lparr>type := VARTYPE_UINT16, len := 2, val_ui := v\<rparr>\<rparr>"

definition long_var :: "int \<Rightarrow> 32 word \<Rightarrow> Variable" where
  "long_var op v =
     zeroed\<lparr>operation := op, obj := (obj zeroed)\<lparr>type := VARTYPE_UINT32, len := 4, val_ul := v\<rparr>\<rparr>"

definition string_var :: "int \<Rightarrow> addr option \<Rightarrow> size_t \<Rightarrow> size_t \<Rightarrow> Variable" where
  "string_var op ptr n cap =
     zeroed\<lparr>operation := op, bufsize := cap,
            obj := (obj zeroed)\<lparr>type := VARTYPE_STR, len := n, val_str := ptr\<rparr>\<rparr>"

definition put :: "addr \<Rightarrow> Variable \<Rightarrow> 'w state \<Rightarrow> 'w state" where
  "put a v s = s\<lparr>vars := (vars s)(a := v)\<rparr>"

definition put_buf :: "addr \<Rightarrow> char list \<Rightarrow> 'w state \<Rightarrow> 'w state" where
  "put_buf b bytes s = s\<lparr>bufs := (bufs s)(b := Some bytes)\<rparr>"


text \<open>
  Three statements: a read of a server variable whose handle is invalid, a node with the
  operation \<open>VA_ILLEGAL\<close>, and the assignment \<open>y = 1\<close> to the local 16-bit variable at
  cell 1.
\<close>

definition three_statements :: "Statement list" where
  "three_statements =
     [Statement (ToVariable (Node 10 Null Null)) None 1,
      Statement (ToVariable (Node 11 Null Null)) None 2,
      Statement (ToVariable (Node 0 (ToVariable (Node 1 Null Null)) (ToVariable (Node 2 Null Null)))) None 3]"

definition three_statements_state :: "nat state" where
  "three_statements_state =
     put 10 (short_var VA_SYSVAR 0)
       (put 11 (short_var VA_ILLEGAL 0)
         (put 0 (short_var VA_ASSIGN 0)
           (put 1 (short_var VA_LOCALVAR 0)
             (put 2 (short_var VA_NUM 1) state0))))"

text \<open>
  The tree of \<open>x++ - x++\<close> on the local 16-bit variable \<open>x = 5\<close> at cell 3: the node at
  cell 0 subtracts, its children at cells 1 (left) and 2 (right) increment, and both have
  the one cell of \<open>x\<close> as left operand.
\<close>

definition order_tree :: Tree where
  "order_tree =
     Node 0 (ToVariable (Node 1 (ToVariable (Node 3 Null Null)) Null))
            (ToVariable (Node 2 (ToVariable (Node 3 Null Null)) Null))"

definition order_state :: "nat state" where
  "order_state =
     put 0 (short_var VA_SUB 0)
       (put 1 (short_var VA_INC 0)
         (put 2 (short_var VA_INC 0)
           (put 3 (short_var VA_LOCALVAR 5) state0)))"

text \<open>
  The tree of \<open>1 + n\<close> where the right child \<open>n\<close> has the operation \<open>VA_ILLEGAL\<close> and holds
  the 16-bit value 2.
\<close>

definition failing_child_tree :: Tree where
  "failing_child_tree = Node 0 (ToVariable (Node 1 Null Null)) (ToVariable (Node 2 Null Null))"

definition failing_child_state :: "nat state" where
  "failing_child_state =
     put 0 (short_var VA_ADD 0)
       (put 1 (short_var VA_NUM 1)
         (put 2 (short_var VA_ILLEGAL 2) state0))"

text \<open>
  The tree of \<open>(x = a) + (x = "b")\<close>: the node at cell 0 adds, its children at cells 1
  (left) and 2 (right) assign to the one local string variable \<open>x\<close> at cell 3, which has
  no buffer yet; \<open>a\<close> at cell 4 is a constant of 30 characters and \<open>"b"\<close> is at cell 5,
  both as \<open>NewString\<close> leaves them, with their buffers at 50 and 51.
\<close>

definition sum_of_assignments_tree :: Tree where
  "sum_of_assignments_tree =
     Node 0 (ToVariable (Node 1 (ToVariable (Node 3 Null Null)) (ToVariable (Node 4 Null Null))))
            (ToVariable (Node 2 (ToVariable (Node 3 Null Null)) (ToVariable (Node 5 Null Null))))"

definition sum_of_assignments_state :: "nat state" where
  "sum_of_assignments_state =
     put 0 (zeroed\<lparr>operation := VA_ADD\<rparr>)
       (put 1 (zeroed\<lparr>operation := VA_ASSIGN\<rparr>)
         (put 2 (zeroed\<lparr>operation := VA_ASSIGN\<rparr>)
           (put 3 (string_var VA_LOCALVAR None 0 0)
             (put 4 (string_var VA_STRING (Some 50) 30 30)
               (put_buf 50 (''abcdefghijklmnopqrstuvwxyz0123'' @ [NUL])
                 (put 5 (string_var VA_STRING (Some 51) 1 1)
                   (put_buf 51 (''b'' @ [NUL]) state0)))))))"


section \<open>Properties\<close>

subsection \<open>Equals and NotEquals\<close>

lemma NotEquals_is_Equals:
  "NotEquals env hVarServer (Some res) pLeft pRight s = Equals env hVarServer (Some res) pLeft pRight s"
  by (simp add: NotEquals_def split: option.splits prod.splits)

lemmas cell_simps = Obj_def put_def put_buf_def short_var_def long_var_def string_var_def set_obj_def
  set_bufsize_def zeroed_def store_bool_def of_bool16_def result_ui_def result_ul_def result_f_def

lemmas buffer_simps = c_string_def string_at_def write_at_def write_buffer_def memcpy_def strcpy_def
  strcat_def malloc_buffer_def realloc_buffer_def strdup_def

text \<open>
  C1.  \<open>NotEquals\<close> is to return the complement of \<open>Equals\<close>: 0 on equal operands, 1 on
  unequal ones.  In the code the inversion never happens.  With the 16-bit values \<open>a\<close> and
  \<open>b\<close> in the operand cells 1 and 2 and the result node at cell 0, in any environment and
  any state, \<open>NotEquals\<close> returns \<open>EOK\<close> and leaves 1 in the result node when \<open>a = b\<close>
  and 0 otherwise, as \<open>Equals\<close> does.
\<close>

theorem NotEquals_does_not_invert:
  "map_option (\<lambda>(rc, s'). (rc, val_ui (Obj s' 0)))
     (NotEquals env (Some h) (Some 0) (Some 1) (Some 2)
        (put 1 (short_var VA_LOCALVAR a) (put 2 (short_var VA_NUM b) s)))
   = Some (EOK, if a = b then 1 else 0)"
  by (simp add: NotEquals_def Equals_def cell_simps)

subsection \<open>The dispatch table\<close>

lemma or_equals_entry: "va_op (InitVarAction s) VA_OR_EQUALS = Some Fn_AndEquals"
  by (simp add: InitVarAction_def)

text \<open>
  C2.  A node with the operation \<open>VA_OR_EQUALS\<close> is to leave \<open>left | right\<close> in the left
  operand and in the result node.  \<open>InitVarAction\<close> stores \<open>AndEquals\<close> at
  \<open>va_op[VA_OR_EQUALS]\<close>, so the evaluator computes \<open>left & right\<close>: with the local
  16-bit variable \<open>a\<close> at cell 1, the constant \<open>b\<close> at cell 2 and the node at cell 0, in
  any environment, the evaluation returns \<open>EOK\<close> and leaves \<open>a & b\<close> in the variable and
  in the node.  For \<open>a = 1\<close> and \<open>b = 2\<close> that is 0, where \<open>1 | 2\<close> is 3.
\<close>

theorem or_equals_node_computes_and:
  "map_option (\<lambda>(rc, s'). (rc, val_ui (Obj s' 1), val_ui (Obj s' 0)))
     (ProcessVariable env (Some h)
        (ToVariable (Node 0 (ToVariable (Node 1 Null Null)) (ToVariable (Node 2 Null Null))))
        (put 0 (short_var VA_OR_EQUALS 0)
          (put 1 (short_var VA_LOCALVAR a)
            (put 2 (short_var VA_NUM b) (InitVarAction s)))))
   = Some (EOK, a AND b, a AND b)
   \<and> (1 :: 16 word) AND 2 = 0 \<and> (1 :: 16 word) OR 2 = 3"
  by (simp add: InitVarAction_def call_def NOP_def AndEquals_def write_back_def
        opname_defined_def cell_simps)

subsection \<open>Increment\<close>

lemma Inc_post16:
  "type (Obj s x) = VARTYPE_UINT16 \<Longrightarrow>
   \<exists>rc s'. Inc env (Some h) (Some res) (Some x) pRight s = Some (rc, s') \<and>
     vars s' = vars (set_obj res (\<lambda>ob. ob\<lparr>val_ui := val_ui (Obj s x)\<rparr>)
                 (set_obj x (\<lambda>ob. ob\<lparr>val_ui := val_ui (Obj s x) + 1\<rparr>) s))"
  by (cases pRight) (auto simp: Inc_def Inc_operand_def Let_def Obj_def set_obj_def split: prod.splits)

lemma Inc_post32:
  "type (Obj s x) = VARTYPE_UINT32 \<Longrightarrow>
   \<exists>rc s'. Inc env (Some h) (Some res) (Some x) pRight s = Some (rc, s') \<and>
     vars s' = vars (set_obj res (\<lambda>ob. ob\<lparr>val_ul := val_ul (Obj s x)\<rparr>)
                 (set_obj x (\<lambda>ob. ob\<lparr>val_ul := val_ul (Obj s x) + 1\<rparr>) s))"
  by (cases pRight) (auto simp: Inc_def Inc_operand_def Let_def Obj_def set_obj_def split: prod.splits)

lemma Inc_pre16:
  "type (Obj s x) = VARTYPE_UINT16 \<Longrightarrow>
   \<exists>rc s'. Inc env (Some h) (Some res) None (Some x) s = Some (rc, s') \<and>
     vars s' = vars (set_obj res (\<lambda>ob. ob\<lparr>val_ui := val_ui (Obj s x) + 1\<rparr>)
                 (set_obj x (\<lambda>ob. ob\<lparr>val_ui := val_ui (Obj s x) + 1\<rparr>) s))"
  by (auto simp: Inc_def Inc_operand_def Let_def Obj_def set_obj_def split: prod.splits)

lemma Inc_pre32:
  "type (Obj s x) = VARTYPE_UINT32 \<Longrightarrow>
   \<exists>rc s'. Inc env (Some h) (Some res) None (Some x) s = Some (rc, s') \<and>
     vars s' = vars (set_obj res (\<lambda>ob. ob\<lparr>val_ul := val_ul (Obj s x) + 1\<rparr>)
                 (set_obj x (\<lambda>ob. ob\<lparr>val_ul := val_ul (Obj s x) + 1\<rparr>) s))"
  by (auto simp: Inc_def Inc_operand_def Let_def Obj_def set_obj_def split: prod.splits)

text \<open>
  C6.  For an operand \<open>x\<close> of 16 or 32 bits and a result node that is another cell:
  \<open>Inc\<close> with \<open>x\<close> as left operand returns, leaves the old value of \<open>x\<close> in the result
  node and \<open>x\<close> at its value plus one (in the arithmetic of the width); \<open>Inc\<close> with \<open>x\<close>
  as right operand only returns and leaves the new value in both.  The type of \<open>x\<close>
  stays.  The witness is the scenario of the specification: \<open>x = 5\<close>, post-increment
  gives 5 and leaves 6, pre-increment then gives 7 and leaves 7.
\<close>

theorem Inc_post_then_pre:
  assumes "res \<noteq> x"
  shows
   "(type (Obj s x) = VARTYPE_UINT16 \<longrightarrow>
      (\<exists>rc s'. Inc env (Some h) (Some res) (Some x) pRight s = Some (rc, s')
         \<and> val_ui (Obj s' res) = val_ui (Obj s x) \<and> val_ui (Obj s' x) = val_ui (Obj s x) + 1
         \<and> type (Obj s' x) = VARTYPE_UINT16)
    \<and> (\<exists>rc s'. Inc env (Some h) (Some res) None (Some x) s = Some (rc, s')
         \<and> val_ui (Obj s' res) = val_ui (Obj s x) + 1 \<and> val_ui (Obj s' x) = val_ui (Obj s x) + 1
         \<and> type (Obj s' x) = VARTYPE_UINT16))
  \<and> (type (Obj s x) = VARTYPE_UINT32 \<longrightarrow>
      (\<exists>rc s'. Inc env (Some h) (Some res) (Some x) pRight s = Some (rc, s')
         \<and> val_ul (Obj s' res) = val_ul (Obj s x) \<and> val_ul (Obj s' x) = val_ul (Obj s x) + 1
         \<and> type (Obj s' x) = VARTYPE_UINT32)
    \<and> (\<exists>rc s'. Inc env (Some h) (Some res) None (Some x) s = Some (rc, s')
         \<and> val_ul (Obj s' res) = val_ul (Obj s x) + 1 \<and> val_ul (Obj s' x) = val_ul (Obj s x) + 1
         \<and> type (Obj s' x) = VARTYPE_UINT32))"
proof (intro conjI impI)
  assume t: "type (Obj s x) = VARTYPE_UINT16"
  from Inc_post16 [OF t, of env h res pRight] assms
  show "\<exists>rc s'. Inc env (Some h) (Some res) (Some x) pRight s = Some (rc, s')
         \<and> val_ui (Obj s' res) = val_ui (Obj s x) \<and> val_ui (Obj s' x) = val_ui (Obj s x) + 1
         \<and> type (Obj s' x) = VARTYPE_UINT16"
    using t by (auto simp: Obj_def set_obj_def)
  from Inc_pre16 [OF t, of env h res] assms
  show "\<exists>rc s'. Inc env (Some h) (Some res) None (Some x) s = Some (rc, s')
         \<and> val_ui (Obj s' res) = val_ui (Obj s x) + 1 \<and> val_ui (Obj s' x) = val_ui (Obj s x) + 1
         \<and> type (Obj s' x) = VARTYPE_UINT16"
    using t by (auto simp: Obj_def set_obj_def)
next
  assume t: "type (Obj s x) = VARTYPE_UINT32"
  from Inc_post32 [OF t, of env h res pRight] assms
  show "\<exists>rc s'. Inc env (Some h) (Some res) (Some x) pRight s = Some (rc, s')
         \<and> val_ul (Obj s' res) = val_ul (Obj s x) \<and> val_ul (Obj s' x) = val_ul (Obj s x) + 1
         \<and> type (Obj s' x) = VARTYPE_UINT32"
    using t by (auto simp: Obj_def set_obj_def)
  from Inc_pre32 [OF t, of env h res] assms
  show "\<exists>rc s'. Inc env (Some h) (Some res) None (Some x) s = Some (rc, s')
         \<and> val_ul (Obj s' res) = val_ul (Obj s x) + 1 \<and> val_ul (Obj s' x) = val_ul (Obj s x) + 1
         \<and> type (Obj s' x) = VARTYPE_UINT32"
    using t by (auto simp: Obj_def set_obj_def)
qed

theorem Inc_post_then_pre_witness:
  "\<exists>rc1 s1 rc2 s2.
     Inc env0 (Some 1) (Some 0) (Some 1) None (put 1 (short_var VA_LOCALVAR 5) state0) = Some (rc1, s1)
     \<and> val_ui (Obj s1 0) = 5 \<and> val_ui (Obj s1 1) = 6
     \<and> Inc env0 (Some 1) (Some 0) None (Some 1) s1 = Some (rc2, s2)
     \<and> val_ui (Obj s2 0) = 7 \<and> val_ui (Obj s2 1) = 7"
proof -
  let ?st = "put 1 (short_var VA_LOCALVAR 5) state0"
  have t: "type (Obj ?st 1) = VARTYPE_UINT16" and v: "val_ui (Obj ?st 1) = 5"
    by (simp_all add: cell_simps)
  have d: "(0::nat) \<noteq> 1" by simp
  from Inc_post_then_pre [OF d, of ?st env0 1 None] t
  obtain rc1 s1 where post:
    "Inc env0 (Some 1) (Some 0) (Some 1) None ?st = Some (rc1, s1)"
    "val_ui (Obj s1 0) = val_ui (Obj ?st 1)"
    "val_ui (Obj s1 1) = val_ui (Obj ?st 1) + 1"
    "type (Obj s1 1) = VARTYPE_UINT16"
    by blast
  from Inc_post_then_pre [OF d, of s1 env0 1 None] post(4)
  obtain rc2 s2 where pre:
    "Inc env0 (Some 1) (Some 0) None (Some 1) s1 = Some (rc2, s2)"
    "val_ui (Obj s2 0) = val_ui (Obj s1 1) + 1"
    "val_ui (Obj s2 1) = val_ui (Obj s1 1) + 1"
    by blast
  from post pre v show ?thesis by simp
qed

subsection \<open>Division\<close>

lemma Divide_16:
  "type (Obj s l) = VARTYPE_UINT16 \<Longrightarrow>
   Divide env hs (Some res) (Some l) (Some r) s =
     (if val_ui (Obj s r) = 0 then None
      else Some (EOK, result_ui res (val_ui (Obj s l) div val_ui (Obj s r)) s))"
  by (simp add: Divide_def)

lemma Divide_32:
  "type (Obj s l) = VARTYPE_UINT32 \<Longrightarrow>
   Divide env hs (Some res) (Some l) (Some r) s =
     (if val_ul (Obj s r) = 0 then None
      else Some (EOK, result_ul res (val_ul (Obj s l) div val_ul (Obj s r)) s))"
  by (simp add: Divide_def)

lemma DivEquals_16_zero:
  "type (Obj s l) = VARTYPE_UINT16 \<Longrightarrow> val_ui (Obj s r) = 0 \<Longrightarrow>
   DivEquals env (Some h) (Some res) (Some l) (Some r) s = None"
  by (simp add: DivEquals_def)

lemma DivEquals_32_zero:
  "type (Obj s l) = VARTYPE_UINT32 \<Longrightarrow> val_ul (Obj s r) = 0 \<Longrightarrow>
   DivEquals env (Some h) (Some res) (Some l) (Some r) s = None"
  by (simp add: DivEquals_def)

lemma DivEquals_16:
  "type (Obj s l) = VARTYPE_UINT16 \<Longrightarrow> val_ui (Obj s r) \<noteq> 0 \<Longrightarrow>
   \<exists>rc s'. DivEquals env (Some h) (Some res) (Some l) (Some r) s = Some (rc, s')
     \<and> val_ui (Obj s' l) = val_ui (Obj s l) div val_ui (Obj s r)
     \<and> val_ui (Obj s' res) = val_ui (Obj s l) div val_ui (Obj s r)"
  by (auto simp: DivEquals_def write_back_def Let_def cell_simps split: prod.splits)

lemma DivEquals_32:
  "type (Obj s l) = VARTYPE_UINT32 \<Longrightarrow> val_ul (Obj s r) \<noteq> 0 \<Longrightarrow>
   \<exists>rc s'. DivEquals env (Some h) (Some res) (Some l) (Some r) s = Some (rc, s')
     \<and> val_ul (Obj s' l) = val_ul (Obj s l) div val_ul (Obj s r)
     \<and> val_ul (Obj s' res) = val_ul (Obj s l) div val_ul (Obj s r)"
  by (auto simp: DivEquals_def write_back_def Let_def cell_simps split: prod.splits)

text \<open>
  C10.  For integer operands \<open>Divide\<close> and \<open>DivEquals\<close> divide without looking at the
  divisor.  With a divisor other than 0 they return and leave the quotient (\<open>Divide\<close> in the
  result node with \<open>EOK\<close>, \<open>DivEquals\<close> in the left operand and the result node); with the
  divisor 0 there is no outcome at all, so no error code either.
\<close>

theorem Divide_has_no_zero_guard:
  "(type (Obj s l) = VARTYPE_UINT16 \<longrightarrow>
      (val_ui (Obj s r) = 0 \<longrightarrow>
         Divide env hs (Some res) (Some l) (Some r) s = None
         \<and> DivEquals env (Some h) (Some res) (Some l) (Some r) s = None)
    \<and> (val_ui (Obj s r) \<noteq> 0 \<longrightarrow>
         (\<exists>s'. Divide env hs (Some res) (Some l) (Some r) s = Some (EOK, s')
            \<and> val_ui (Obj s' res) = val_ui (Obj s l) div val_ui (Obj s r))
         \<and> (\<exists>rc s'. DivEquals env (Some h) (Some res) (Some l) (Some r) s = Some (rc, s')
            \<and> val_ui (Obj s' l) = val_ui (Obj s l) div val_ui (Obj s r)
            \<and> val_ui (Obj s' res) = val_ui (Obj s l) div val_ui (Obj s r))))
   \<and> (type (Obj s l) = VARTYPE_UINT32 \<longrightarrow>
      (val_ul (Obj s r) = 0 \<longrightarrow>
         Divide env hs (Some res) (Some l) (Some r) s = None
         \<and> DivEquals env (Some h) (Some res) (Some l) (Some r) s = None)
    \<and> (val_ul (Obj s r) \<noteq> 0 \<longrightarrow>
         (\<exists>s'. Divide env hs (Some res) (Some l) (Some r) s = Some (EOK, s')
            \<and> val_ul (Obj s' res) = val_ul (Obj s l) div val_ul (Obj s r))
         \<and> (\<exists>rc s'. DivEquals env (Some h) (Some res) (Some l) (Some r) s = Some (rc, s')
            \<and> val_ul (Obj s' l) = val_ul (Obj s l) div val_ul (Obj s r)
            \<and> val_ul (Obj s' res) = val_ul (Obj s l) div val_ul (Obj s r))))"
proof (intro conjI impI)
  assume t: "type (Obj s l) = VARTYPE_UINT16"
  { assume z: "val_ui (Obj s r) = 0"
    show "Divide env hs (Some res) (Some l) (Some r) s = None"
      using t z by (simp add: Divide_16)
    show "DivEquals env (Some h) (Some res) (Some l) (Some r) s = None"
      using t z by (rule DivEquals_16_zero) }
  { assume nz: "val_ui (Obj s r) \<noteq> 0"
    show "\<exists>s'. Divide env hs (Some res) (Some l) (Some r) s = Some (EOK, s')
            \<and> val_ui (Obj s' res) = val_ui (Obj s l) div val_ui (Obj s r)"
      using t nz by (simp add: Divide_16 cell_simps)
    show "\<exists>rc s'. DivEquals env (Some h) (Some res) (Some l) (Some r) s = Some (rc, s')
            \<and> val_ui (Obj s' l) = val_ui (Obj s l) div val_ui (Obj s r)
            \<and> val_ui (Obj s' res) = val_ui (Obj s l) div val_ui (Obj s r)"
      using t nz by (rule DivEquals_16) }
next
  assume t: "type (Obj s l) = VARTYPE_UINT32"
  { assume z: "val_ul (Obj s r) = 0"
    show "Divide env hs (Some res) (Some l) (Some r) s = None"
      using t z by (simp add: Divide_32)
    show "DivEquals env (Some h) (Some res) (Some l) (Some r) s = None"
      using t z by (rule DivEquals_32_zero) }
  { assume nz: "val_ul (Obj s r) \<noteq> 0"
    show "\<exists>s'. Divide env hs (Some res) (Some l) (Some r) s = Some (EOK, s')
            \<and> val_ul (Obj s' res) = val_ul (Obj s l) div val_ul (Obj s r)"
      using t nz by (simp add: Divide_32 cell_simps)
    show "\<exists>rc s'. DivEquals env (Some h) (Some res) (Some l) (Some r) s = Some (rc, s')
            \<and> val_ul (Obj s' l) = val_ul (Obj s l) div val_ul (Obj s r)
            \<and> val_ul (Obj s' res) = val_ul (Obj s l) div val_ul (Obj s r)"
      using t nz by (rule DivEquals_32) }
qed

theorem Divide_has_no_zero_guard_witness:
  "Divide env0 (Some 1) (Some 0) (Some 1) (Some 2)
     (put 1 (short_var VA_LOCALVAR 7) (put 2 (short_var VA_NUM 0) state0)) = None
   \<and> DivEquals env0 (Some 1) (Some 0) (Some 1) (Some 2)
     (put 1 (short_var VA_LOCALVAR 7) (put 2 (short_var VA_NUM 0) state0)) = None
   \<and> (\<exists>s'. Divide env0 (Some 1) (Some 0) (Some 1) (Some 2)
         (put 1 (long_var VA_LOCALVAR 7) (put 2 (long_var VA_NUM 2) state0)) = Some (EOK, s')
       \<and> val_ul (Obj s' 0) = 3)
   \<and> (\<exists>rc s'. DivEquals env0 (Some 1) (Some 0) (Some 1) (Some 2)
         (put 1 (long_var VA_LOCALVAR 7) (put 2 (long_var VA_NUM 2) state0)) = Some (rc, s')
       \<and> val_ul (Obj s' 1) = 3 \<and> val_ul (Obj s' 0) = 3)"
  using Divide_has_no_zero_guard
          [of "put 1 (short_var VA_LOCALVAR 7) (put 2 (short_var VA_NUM 0) state0)" 1 2 env0 "Some 1" 0 1]
        Divide_has_no_zero_guard
          [of "put 1 (long_var VA_LOCALVAR 7) (put 2 (long_var VA_NUM 2) state0)" 1 2 env0 "Some 1" 0 1]
  by (simp add: cell_simps)

subsection \<open>Compound assignment to a variable of the server\<close>








lemma malloc_buffer_vars: "malloc_buffer env n s = (q, s') \<Longrightarrow> vars s' = vars s"
  by (auto simp: malloc_buffer_def split: option.splits prod.splits)

lemma realloc_buffer_vars: "realloc_buffer env b n s = Some (q, s') \<Longrightarrow> vars s' = vars s"
  by (auto simp: realloc_buffer_def split: option.splits prod.splits)

lemma write_buffer_vars: "write_buffer p off src s = Some s' \<Longrightarrow> vars s' = vars s"
  by (auto simp: write_buffer_def split: option.splits)

lemma memcpy_vars: "memcpy dst src n s = Some s' \<Longrightarrow> vars s' = vars s"
  by (auto simp: memcpy_def dest: write_buffer_vars split: option.splits if_splits)

lemma strcpy_vars: "strcpy dst off src s = Some s' \<Longrightarrow> vars s' = vars s"
  by (auto simp: strcpy_def dest: write_buffer_vars split: option.splits if_splits)

lemma strcat_vars: "strcat dst src s = Some s' \<Longrightarrow> vars s' = vars s"
  by (auto simp: strcat_def dest: strcpy_vars split: option.splits)







subsection \<open>Deleting a timer\<close>

text \<open>
  C8.  An id with no registered timer is to give not-found and 0 in the result node.
  \<open>VADeleteTimer\<close> does so for an id outside \<open>(0, MAX_TIMERS)\<close>.  For an id in range it
  never looks at the slot (\<open>VACreateTimer\<close> and \<open>VACreateTick\<close> test \<open>timers[id] != 0\<close>
  before they delete; \<open>VADeleteTimer\<close> has no such test): the handle 0 of an empty slot
  goes to \<open>timer_delete\<close>, and what that call says about the handle 0 is the outcome,
  its \<open>errno\<close> with 0 in the result node when it refuses, and \<open>EOK\<close> with 1 in the result
  node when it accepts, in which case the timer named by 0 is gone.  Not-found comes out
  only if \<open>timer_delete\<close> happens to leave that \<open>errno\<close>.
\<close>

theorem VADeleteTimer_empty_slot:
  "(\<not> (0 < uint (val_ui (Obj s l)) \<and> uint (val_ui (Obj s l)) < MAX_TIMERS) \<longrightarrow>
      VADeleteTimer env (Some h) (Some res) (Some l) pRight s
        = Some (ENOENT, result_ui res 0 s))
   \<and> (0 < uint (val_ui (Obj s l)) \<and> uint (val_ui (Obj s l)) < MAX_TIMERS
       \<and> timers s (uint (val_ui (Obj s l))) = 0
       \<and> timer_delete env (world s) 0 = (rv, errno, w) \<longrightarrow>
      VADeleteTimer env (Some h) (Some res) (Some l) pRight s
        = (let code = (if rv = 0 then EOK else errno)
           in Some (code, result_ui res (if code = EOK then 1 else 0) (s\<lparr>world := w\<rparr>))))"
  by (auto simp: VADeleteTimer_def Let_def)

theorem VADeleteTimer_empty_slot_witness:
  "timers (put 1 (short_var VA_NUM 1) state0) 1 = 0
   \<and> map_option (\<lambda>(rc, s'). (rc, val_ui (Obj s' 0)))
       (VADeleteTimer env0 (Some 1) (Some 0) (Some 1) None (put 1 (short_var VA_NUM 1) state0))
       = Some (EINVAL, 0)
   \<and> map_option (\<lambda>(rc, s'). (rc, val_ui (Obj s' 0)))
       (VADeleteTimer env_timer_zero (Some 1) (Some 0) (Some 1) None
          (put 1 (short_var VA_NUM 1) state0))
       = Some (EOK, 1)
   \<and> map_option (\<lambda>(rc, s'). (rc, val_ui (Obj s' 0)))
       (VADeleteTimer env0 (Some 1) (Some 0) (Some 1) None (put 1 (short_var VA_NUM 300) state0))
       = Some (ENOENT, 0)"
  using VADeleteTimer_empty_slot [where s = "put 1 (short_var VA_NUM 1) state0" and l = 1
          and env = env0 and h = 1 and res = 0 and pRight = None
          and rv = "-1" and errno = EINVAL and w = 100]
        VADeleteTimer_empty_slot [where s = "put 1 (short_var VA_NUM 1) state0" and l = 1
          and env = env_timer_zero and h = 1 and res = 0 and pRight = None
          and rv = 0 and errno = 0 and w = 100]
        VADeleteTimer_empty_slot [where s = "put 1 (short_var VA_NUM 300) state0" and l = 1
          and env = env0 and h = 1 and res = 0 and pRight = None]
  by (simp add: env0_def env_timer_zero_def state0_def InitVarAction_def cell_simps)

subsection \<open>Recorded length and recorded buffer size of strings\<close>

lemma size_t_less_succ: "(n::size_t) + 1 \<noteq> 0 \<Longrightarrow> n < n + 1"
  using unatSuc [of n] by (simp add: word_less_nat_alt add.commute)

lemma AllocateString_capacity:
  assumes "AllocateString env (Some p) n s = Some (EOK, s')" and "n + 1 \<noteq> 0"
  shows "unat n + 1 \<le> unat (bufsize (vars s' p))"
proof -
  let ?b = "if n < 32 then 32 else n + 1"
  have b: "n < ?b"
    using size_t_less_succ [OF assms(2)] by simp
  from assms(1) have "bufsize (vars s' p) = ?b \<or> n < bufsize (vars s' p)"
    by (auto simp: AllocateString_def Let_def cell_simps not_le
             dest!: malloc_buffer_vars realloc_buffer_vars
             split: option.splits if_splits prod.splits)
  with b have "n < bufsize (vars s' p)" by auto
  then show ?thesis by (simp add: word_less_nat_alt)
qed

lemma AssignString_capacity:
  assumes "AssignString env (Some res) (Some l) (Some r) s = Some (EOK, s')"
    and "len (Obj s r) + 1 \<noteq> 0"
  shows "unat (len (Obj s' l)) + 1 \<le> unat (bufsize (vars s' l))
         \<and> unat (len (Obj s' res)) + 1 \<le> unat (bufsize (vars s' res))"
proof -
  let ?n = "len (Obj s r)"
  from assms(1) obtain s1 s2 s3 where
    a: "AllocateString env (Some l) ?n s = Some (EOK, s1)"
    and m: "memcpy (val_str (Obj s1 l)) (val_str (Obj s1 r)) (unat ?n) s1 = Some s2"
    and w: "write_buffer (val_str (Obj s2 l)) (unat ?n) [NUL] s2 = Some s3"
    by (auto simp: AssignString_def Let_def split: if_splits option.splits)
  have v: "vars s3 = vars s1"
    using memcpy_vars [OF m] write_buffer_vars [OF w] by simp
  have c: "unat ?n + 1 \<le> unat (bufsize (vars s1 l))"
    by (rule AllocateString_capacity [OF a assms(2)])
  from assms(1) a m w v c show ?thesis
    by (auto simp: AssignString_def Let_def cell_simps split: if_splits)
qed

lemma ConcatString_capacity:
  assumes "ConcatString env (Some res) (Some l) (Some r) s = Some (EOK, s')"
    and "len (Obj s l) + len (Obj s r) + 1 \<noteq> 0"
  shows "unat (len (Obj s' l)) + 1 \<le> unat (bufsize (vars s' l))
         \<and> unat (len (Obj s' res)) + 1 \<le> unat (bufsize (vars s' res))"
proof -
  let ?n = "len (Obj s l) + len (Obj s r)"
  from assms(1) obtain s1 s2 where
    a: "AllocateString env (Some l) ?n s = Some (EOK, s1)"
    and m: "strcat (val_str (Obj s1 l)) (val_str (Obj s1 r)) s1 = Some s2"
    by (auto simp: ConcatString_def Let_def split: if_splits option.splits)
  have v: "vars s2 = vars s1"
    by (rule strcat_vars [OF m])
  have c: "unat ?n + 1 \<le> unat (bufsize (vars s1 l))"
    by (rule AllocateString_capacity [OF a assms(2)])
  from assms(1) a m v c show ?thesis
    by (auto simp: ConcatString_def Let_def cell_simps split: if_splits option.splits)
qed

lemma AddString_capacity:
  assumes "AddString env (Some res) (Some l) (Some r) s = Some (EOK, s')"
    and "len (Obj s l) + len (Obj s r) + 1 \<noteq> 0"
  shows "unat (len (Obj s' res)) + 1 \<le> unat (bufsize (vars s' res))"
proof -
  let ?n = "len (Obj s l) + len (Obj s r)"
  let ?s1 = "set_obj res (\<lambda>ob. ob\<lparr>type := VARTYPE_STR\<rparr>) s"
  from assms(1) obtain s2 s3 s4 where
    a: "AllocateString env (Some res) ?n ?s1 = Some (EOK, s2)"
    and m: "strcpy (val_str (Obj s2 res)) 0 (val_str (Obj s2 l)) s2 = Some s3"
    and w: "strcpy (val_str (Obj s3 res)) (unat (len (Obj s l))) (val_str (Obj s3 r)) s3 = Some s4"
    by (auto simp: AddString_def Let_def split: if_splits option.splits)
  have v: "vars s4 = vars s2"
    using strcpy_vars [OF m] strcpy_vars [OF w] by simp
  have c: "unat ?n + 1 \<le> unat (bufsize (vars s2 res))"
    by (rule AllocateString_capacity [OF a assms(2)])
  from assms(1) a m w v c show ?thesis
    by (auto simp: AddString_def Let_def cell_simps split: if_splits option.splits)
qed

lemma NewString_capacity:
  "NewString env (Some str) s = (Some v, s') \<Longrightarrow>
   type (Obj s' v) = VARTYPE_STR \<and> len (Obj s' v) = of_nat (length str)
   \<and> bufsize (vars s' v) = len (Obj s' v)"
  by (auto simp: NewString_def strdup_def Let_def cell_simps split: option.splits prod.splits)

text \<open>
  C9 as stated fails.  \<open>NewString\<close> records the length of the text as the buffer size (the
  buffer from \<open>strdup\<close> is one byte longer than recorded), so the recorded size is not
  above the recorded length.  And \<open>AllocateString\<close> asked for the largest \<open>size_t\<close>
  computes the size \<open>len + 1\<close>, which is 0: an allocator that gives a block for the size
  0 makes it return \<open>EOK\<close> with the recorded size 0.
\<close>

theorem NewString_records_length_as_capacity:
  "fst (NewString env0 (Some ''abc'') state0) = Some 100
   \<and> type (Obj (snd (NewString env0 (Some ''abc'') state0)) 100) = VARTYPE_STR
   \<and> len (Obj (snd (NewString env0 (Some ''abc'') state0)) 100) = 3
   \<and> bufsize (vars (snd (NewString env0 (Some ''abc'') state0)) 100) = 3
   \<and> val_str (Obj (snd (NewString env0 (Some ''abc'') state0)) 100) = Some 101
   \<and> bufs (snd (NewString env0 (Some ''abc'') state0)) 101 = Some (''abc'' @ [NUL])
   \<and> map_option (\<lambda>(rc, t). (rc, len (Obj t 1), bufsize (vars t 1)))
        (AllocateString env0 (Some 1) (- 1) (put 1 (string_var VA_LOCALVAR None 0 0) state0))
       = Some (EOK, 0, 0)"
  by (simp add: NewString_def AllocateString_def strdup_def malloc_buffer_def env0_def state0_def
        InitVarAction_def cell_simps)

text \<open>
  C9 as amended.  The length asked of \<open>AllocateString\<close> (the length of the right operand
  for \<open>AssignString\<close>, the sum of the two lengths in \<open>size_t\<close> arithmetic for
  \<open>ConcatString\<close> and \<open>AddString\<close>) is not the largest \<open>size_t\<close>.  Then after
  \<open>AllocateString\<close> has returned \<open>EOK\<close> the recorded buffer size is at least the length
  asked for plus one; after \<open>AssignString\<close> or \<open>ConcatString\<close> has returned \<open>EOK\<close> the
  recorded buffer size of the left operand and of the result node is at least the recorded
  length plus one, and so is that of the result node after \<open>AddString\<close>.  \<open>NewString\<close>
  records the length of the text as length and as buffer size.  All of this is about the
  two recorded numbers, not about the bytes of the buffer.
\<close>

theorem string_capacity:
  "(AllocateString env (Some p) n s = Some (EOK, t) \<and> n + 1 \<noteq> 0 \<longrightarrow>
        unat n + 1 \<le> unat (bufsize (vars t p)))
   \<and> (AssignString env (Some res) (Some l) (Some r) s = Some (EOK, t)
       \<and> len (Obj s r) + 1 \<noteq> 0 \<longrightarrow>
        unat (len (Obj t l)) + 1 \<le> unat (bufsize (vars t l))
        \<and> unat (len (Obj t res)) + 1 \<le> unat (bufsize (vars t res)))
   \<and> (ConcatString env (Some res) (Some l) (Some r) s = Some (EOK, t)
       \<and> len (Obj s l) + len (Obj s r) + 1 \<noteq> 0 \<longrightarrow>
        unat (len (Obj t l)) + 1 \<le> unat (bufsize (vars t l))
        \<and> unat (len (Obj t res)) + 1 \<le> unat (bufsize (vars t res)))
   \<and> (AddString env (Some res) (Some l) (Some r) s = Some (EOK, t)
       \<and> len (Obj s l) + len (Obj s r) + 1 \<noteq> 0 \<longrightarrow>
        unat (len (Obj t res)) + 1 \<le> unat (bufsize (vars t res)))
   \<and> (NewString env (Some str) s = (Some v, t) \<longrightarrow>
        type (Obj t v) = VARTYPE_STR \<and> len (Obj t v) = of_nat (length str)
        \<and> bufsize (vars t v) = len (Obj t v))"
proof (intro conjI impI)
  assume "AllocateString env (Some p) n s = Some (EOK, t) \<and> n + 1 \<noteq> 0"
  then show "unat n + 1 \<le> unat (bufsize (vars t p))"
    using AllocateString_capacity by blast
next
  assume "AssignString env (Some res) (Some l) (Some r) s = Some (EOK, t)
          \<and> len (Obj s r) + 1 \<noteq> 0"
  then have a: "unat (len (Obj t l)) + 1 \<le> unat (bufsize (vars t l))
          \<and> unat (len (Obj t res)) + 1 \<le> unat (bufsize (vars t res))"
    using AssignString_capacity by blast
  from a show "unat (len (Obj t l)) + 1 \<le> unat (bufsize (vars t l))" by simp
  from a show "unat (len (Obj t res)) + 1 \<le> unat (bufsize (vars t res))" by simp
next
  assume "ConcatString env (Some res) (Some l) (Some r) s = Some (EOK, t)
          \<and> len (Obj s l) + len (Obj s r) + 1 \<noteq> 0"
  then have a: "unat (len (Obj t l)) + 1 \<le> unat (bufsize (vars t l))
          \<and> unat (len (Obj t res)) + 1 \<le> unat (bufsize (vars t res))"
    using ConcatString_capacity by blast
  from a show "unat (len (Obj t l)) + 1 \<le> unat (bufsize (vars t l))" by simp
  from a show "unat (len (Obj t res)) + 1 \<le> unat (bufsize (vars t res))" by simp
next
  assume "AddString env (Some res) (Some l) (Some r) s = Some (EOK, t)
          \<and> len (Obj s l) + len (Obj s r) + 1 \<noteq> 0"
  then show "unat (len (Obj t res)) + 1 \<le> unat (bufsize (vars t res))"
    using AddString_capacity by blast
next
  assume n: "NewString env (Some str) s = (Some v, t)"
  from NewString_capacity [OF n] show "type (Obj t v) = VARTYPE_STR" by simp
  from NewString_capacity [OF n] show "len (Obj t v) = of_nat (length str)" by simp
  from NewString_capacity [OF n] show "bufsize (vars t v) = len (Obj t v)" by simp
qed

theorem string_capacity_witness:
  "(\<exists>t. AssignString env0 (Some 0) (Some 1) (Some 2)
            (put 1 (string_var VA_LOCALVAR None 0 0)
              (put 2 (string_var VA_STRING (Some 51) 5 5)
                (put_buf 51 (''hello'' @ [NUL]) state0))) = Some (EOK, t)
        \<and> unat (len (Obj t 1)) + 1 \<le> unat (bufsize (vars t 1))
        \<and> len (Obj t 1) = 5 \<and> bufsize (vars t 1) = 32
        \<and> string_at t (val_str (Obj t 1)) = Some ''hello'')
   \<and> (\<exists>t. ConcatString env0 (Some 0) (Some 1) (Some 2)
            (put 1 (string_var VA_LOCALVAR (Some 50) 2 32)
              (put_buf 50 (''ab'' @ replicate 30 NUL)
                (put 2 (string_var VA_STRING (Some 51) 5 5)
                  (put_buf 51 (''hello'' @ [NUL]) state0)))) = Some (EOK, t)
        \<and> unat (len (Obj t 1)) + 1 \<le> unat (bufsize (vars t 1))
        \<and> len (Obj t 1) = 7 \<and> bufsize (vars t 1) = 32
        \<and> string_at t (val_str (Obj t 1)) = Some ''abhello'')
   \<and> (\<exists>t. NewString env0 (Some ''abc'') state0 = (Some 100, t)
        \<and> len (Obj t 100) = 3 \<and> bufsize (vars t 100) = 3)"
proof -
  let ?a = "put 1 (string_var VA_LOCALVAR None 0 0)
              (put 2 (string_var VA_STRING (Some 51) 5 5)
                (put_buf 51 (''hello'' @ [NUL]) state0))"
  let ?c = "put 1 (string_var VA_LOCALVAR (Some 50) 2 32)
              (put_buf 50 (''ab'' @ replicate 30 NUL)
                (put 2 (string_var VA_STRING (Some 51) 5 5)
                  (put_buf 51 (''hello'' @ [NUL]) state0)))"
  note ev = env0_def state0_def InitVarAction_def Let_def cell_simps buffer_simps
  obtain sa where a: "AssignString env0 (Some 0) (Some 1) (Some 2) ?a = Some (EOK, sa)"
    and a': "len (Obj sa 1) = 5" "bufsize (vars sa 1) = 32"
            "string_at sa (val_str (Obj sa 1)) = Some ''hello''"
    by (simp add: AssignString_def AllocateString_def ev)
  obtain sc where c: "ConcatString env0 (Some 0) (Some 1) (Some 2) ?c = Some (EOK, sc)"
    and c': "len (Obj sc 1) = 7" "bufsize (vars sc 1) = 32"
            "string_at sc (val_str (Obj sc 1)) = Some ''abhello''"
    by (simp add: ConcatString_def AllocateString_def ev)
  obtain sn where n: "NewString env0 (Some ''abc'') state0 = (Some 100, sn)"
    by (simp add: NewString_def ev)
  have la: "len (Obj ?a 2) + 1 \<noteq> 0" by (simp add: cell_simps)
  have lc: "len (Obj ?c 1) + len (Obj ?c 2) + 1 \<noteq> 0" by (simp add: cell_simps)
  from string_capacity [where env = env0 and res = 0 and l = 1 and r = 2 and s = ?a and t = sa] a la
  have "unat (len (Obj sa 1)) + 1 \<le> unat (bufsize (vars sa 1))" by blast
  moreover
  from string_capacity [where env = env0 and res = 0 and l = 1 and r = 2 and s = ?c and t = sc] c lc
  have "unat (len (Obj sc 1)) + 1 \<le> unat (bufsize (vars sc 1))" by blast
  moreover
  from string_capacity [where env = env0 and str = "''abc''" and s = state0 and v = 100 and t = sn] n
  have "len (Obj sn 100) = 3 \<and> bufsize (vars sn 100) = 3" by simp
  ultimately show ?thesis using a a' c c' n by blast
qed

text \<open>
  What the recorded numbers do not say.  In \<open>(x = a) + (x = "b")\<close> the right assignment
  runs first and its result node records the length 1 and the pointer of \<open>x\<close>; the left
  assignment then stores the 30 characters of \<open>a\<close> in the same buffer.  \<open>AddString\<close>
  allocates for the recorded 30 + 1 characters, a buffer of 32 bytes with the recorded
  size 32, and copies through the right pointer the 30 characters and the NUL that the
  buffer of \<open>x\<close> now holds to offset 30: the copy runs past the end of the buffer, and
  the evaluation has no outcome.
\<close>

lemma sum_of_assignments_overruns:
  "\<exists>s1 s2.
     ProcessVariable env0 (Some 1)
       (ToVariable (Node 2 (ToVariable (Node 3 Null Null)) (ToVariable (Node 5 Null Null))))
       sum_of_assignments_state = Some (EOK, s1)
     \<and> len (Obj s1 2) = 1 \<and> val_str (Obj s1 2) = val_str (Obj s1 3)
     \<and> ProcessVariable env0 (Some 1)
       (ToVariable (Node 1 (ToVariable (Node 3 Null Null)) (ToVariable (Node 4 Null Null))))
       s1 = Some (EOK, s2)
     \<and> len (Obj s2 1) = 30 \<and> len (Obj s2 2) = 1 \<and> bufsize (vars s2 3) = 32
     \<and> val_str (Obj s2 1) = val_str (Obj s2 3) \<and> val_str (Obj s2 2) = val_str (Obj s2 3)
     \<and> string_at s2 (val_str (Obj s2 2)) = Some ''abcdefghijklmnopqrstuvwxyz0123''
     \<and> AddString env0 (Some 0) (Some 1) (Some 2) s2 = None
     \<and> ProcessExpr env0 (Some 1) (ToVariable sum_of_assignments_tree) sum_of_assignments_state
         = None"
proof -
  let ?r = "ToVariable (Node 2 (ToVariable (Node 3 Null Null)) (ToVariable (Node 5 Null Null)))"
  let ?l = "ToVariable (Node 1 (ToVariable (Node 3 Null Null)) (ToVariable (Node 4 Null Null)))"
  define s1 where "s1 = snd (the (ProcessVariable env0 (Some 1) ?r sum_of_assignments_state))"
  define s2 where "s2 = snd (the (ProcessVariable env0 (Some 1) ?l s1))"
  note ev = sum_of_assignments_state_def sum_of_assignments_tree_def env0_def state0_def
    InitVarAction_def call_def NOP_def Assign_def Add_def AssignString_def AddString_def
    AllocateString_def write_back_def Let_def cell_simps buffer_simps
  have r: "ProcessVariable env0 (Some 1) ?r sum_of_assignments_state = Some (EOK, s1)"
    and r': "len (Obj s1 2) = 1" "val_str (Obj s1 2) = val_str (Obj s1 3)"
    unfolding s1_def by (simp_all add: ev)
  have l: "ProcessVariable env0 (Some 1) ?l s1 = Some (EOK, s2)"
    and l': "len (Obj s2 1) = 30" "len (Obj s2 2) = 1" "bufsize (vars s2 3) = 32"
      "val_str (Obj s2 1) = val_str (Obj s2 3)" "val_str (Obj s2 2) = val_str (Obj s2 3)"
      "string_at s2 (val_str (Obj s2 2)) = Some ''abcdefghijklmnopqrstuvwxyz0123''"
    unfolding s2_def s1_def by (simp_all add: ev)
  have a: "AddString env0 (Some 0) (Some 1) (Some 2) s2 = None"
    unfolding s2_def s1_def by (simp add: ev)
  have e: "ProcessExpr env0 (Some 1) (ToVariable sum_of_assignments_tree) sum_of_assignments_state
             = None"
    using r l a unfolding s2_def s1_def by (simp add: ev)
  from r r' l l' a e show ?thesis by blast
qed

subsection \<open>Statement lists\<close>

lemma statement_loop_codes:
  "statement_loop env hVarServer pStatements result s =
     map_option (\<lambda>(rcs, s'). (case filter (\<lambda>rc. rc \<noteq> EOK) rcs of [] \<Rightarrow> result | fs \<Rightarrow> last fs, s'))
       (statement_codes env hVarServer pStatements s)"
proof (induction pStatements arbitrary: result s)
  case Nil
  show ?case by simp
next
  case (Cons st rest)
  show ?case
  proof (cases "ProcessStatement env hVarServer st s")
    case None
    then show ?thesis by simp
  next
    case (Some p)
    obtain rc s1 where p: "p = (rc, s1)" by (cases p)
    show ?thesis
      using Some p Cons.IH [of "if rc \<noteq> EOK then rc else result" s1]
      by (cases "statement_codes env hVarServer rest s1")
         (auto split: list.splits)
  qed
qed

lemma statement_codes_length:
  "statement_codes env hVarServer pStatements s = Some (rcs, s') \<Longrightarrow> length rcs = length pStatements"
  by (induction pStatements arbitrary: rcs s) (auto split: option.splits)

lemma last_failure_EOK: "(last_failure rcs = EOK) = (\<forall>rc \<in> set rcs. rc = EOK)"
proof (cases "filter (\<lambda>rc. rc \<noteq> EOK) rcs")
  case Nil
  then show ?thesis by (simp add: last_failure_def filter_empty_conv)
next
  case (Cons f fs)
  then have "last (f # fs) \<in> set (filter (\<lambda>rc. rc \<noteq> EOK) rcs)"
    using last_in_set [of "f # fs"] by simp
  then have "last (f # fs) \<noteq> EOK" and "last (f # fs) \<in> set rcs" by simp_all
  with Cons show ?thesis by (auto simp: last_failure_def simp del: last.simps)
qed

text \<open>
  C7.  For a server handle and a statement list that are not null,
  \<open>ProcessCompoundStatement\<close> processes every statement in list order, each from the state
  its predecessor left, also after a failure (there is a code for every statement), and
  returns the code of the most recent statement that failed; it returns \<open>EOK\<close> exactly when
  no statement failed.  It has no outcome only when a statement has none.
\<close>

theorem ProcessCompoundStatement_last_failure:
  assumes "hVarServer \<noteq> None" and "pStatements \<noteq> []"
  shows "ProcessCompoundStatement env hVarServer pStatements s =
           map_option (\<lambda>(rcs, s'). (last_failure rcs, s'))
             (statement_codes env hVarServer pStatements s)
         \<and> (\<forall>rcs s'. statement_codes env hVarServer pStatements s = Some (rcs, s') \<longrightarrow>
               length rcs = length pStatements
               \<and> ((last_failure rcs = EOK) = (\<forall>rc \<in> set rcs. rc = EOK)))"
  using assms
  by (auto simp: statement_loop_codes last_failure_def [abs_def] statement_codes_length
        last_failure_EOK [unfolded last_failure_def])

lemmas example_simps = three_statements_def three_statements_state_def order_tree_def
  order_state_def failing_child_tree_def failing_child_state_def env0_def state0_def
  InitVarAction_def call_def opname_defined_def cell_simps

theorem ProcessCompoundStatement_last_failure_witness:
  "map_option fst (statement_codes env0 (Some 1) three_statements three_statements_state)
     = Some [EINVAL, ENOTSUP, EOK]
   \<and> map_option (\<lambda>(rc, s'). (rc, val_ui (Obj s' 1)))
       (ProcessCompoundStatement env0 (Some 1) three_statements three_statements_state)
     = Some (ENOTSUP, 1)"
proof -
  have h: "Some (1::nat) \<noteq> None" and n: "three_statements \<noteq> []"
    by (simp_all add: three_statements_def)
  obtain sf where c: "statement_codes env0 (Some 1) three_statements three_statements_state
                        = Some ([EINVAL, ENOTSUP, EOK], sf)"
    and y: "val_ui (Obj sf 1) = 1"
    by (simp add: example_simps GetVar_def Unsupported_def NOP_def Assign_def write_back_def
          ProcessScript_def Let_def)
  from ProcessCompoundStatement_last_failure [OF h n, of env0 three_statements_state] c
  have "ProcessCompoundStatement env0 (Some 1) three_statements three_statements_state
          = Some (last_failure [EINVAL, ENOTSUP, EOK], sf)"
    by simp
  with c y show ?thesis by (simp add: last_failure_def)
qed

subsection \<open>Evaluation of an expression node\<close>

text \<open>
  C3 as stated fails: the right child of \<open>failing_child_tree\<close> evaluates to \<open>ENOTSUP\<close>, and
  the evaluation of the tree returns \<open>EOK\<close>, the code of its own handler.
\<close>

theorem ProcessExpr_drops_child_code:
  "map_option fst (ProcessVariable env0 (Some 1) (ToVariable (Node 2 Null Null)) failing_child_state)
     = Some ENOTSUP
   \<and> map_option fst (ProcessExpr env0 (Some 1) (ToVariable failing_child_tree) failing_child_state)
     = Some EOK
   \<and> map_option fst (ProcessVariable env0 (Some 1) (ToVariable failing_child_tree) failing_child_state)
     = Some EOK"
  by (simp add: example_simps Unsupported_def NOP_def Add_def)

text \<open>
  C3 as amended.  For a node whose operation is inside the table: when the evaluation of
  the right child from the state \<open>s\<close> gives the state \<open>s1\<close> and the evaluation of the
  left child from \<open>s1\<close> gives \<open>s2\<close>, whatever the two codes are, \<open>ProcessExpr\<close> is the call
  of the table's handler for the operation of the node, with the node and both children,
  from \<open>s2\<close>; its code is the handler's.  \<open>ProcessVariable\<close> on a node that is not an IF
  adds only the read of \<open>opname\<close> for the diagnostic.
\<close>

theorem ProcessExpr_right_left_handler:
  assumes "ProcessVariable env (Some h) right s = Some (lrc, s1)"
    and "ProcessVariable env (Some h) left s1 = Some (rrc, s2)"
    and "0 \<le> operation (vars s2 a)" and "operation (vars s2 a) < VA_OP_MAX"
    and "va_op s2 (operation (vars s2 a)) = Some fn"
  shows "ProcessExpr env (Some h) (ToVariable (Node a left right)) s
           = call env fn (Some h) (Some a) (address left) (address right) s2
         \<and> (operation (vars s a) \<noteq> VA_IF \<longrightarrow>
              ProcessVariable env (Some h) (ToVariable (Node a left right)) s
                = (case call env fn (Some h) (Some a) (address left) (address right) s2 of
                     None \<Rightarrow> None
                   | Some (rc, s3) \<Rightarrow>
                       if rc \<noteq> EOK \<and> \<not> opname_defined (operation (vars s3 a)) then None
                       else Some (rc, s3)))"
  using assms by (simp add: Let_def)

theorem ProcessExpr_right_left_handler_witness:
  "\<exists>s1 s2.
     ProcessVariable env0 (Some 1) (ToVariable (Node 2 (ToVariable (Node 3 Null Null)) Null)) order_state
       = Some (EOK, s1)
     \<and> val_ui (Obj s1 2) = 5 \<and> val_ui (Obj s1 3) = 6
     \<and> ProcessVariable env0 (Some 1) (ToVariable (Node 1 (ToVariable (Node 3 Null Null)) Null)) s1
       = Some (EOK, s2)
     \<and> val_ui (Obj s2 1) = 6 \<and> val_ui (Obj s2 3) = 7
     \<and> va_op s2 (operation (vars s2 0)) = Some Fn_Sub
     \<and> ProcessExpr env0 (Some 1) (ToVariable order_tree) order_state
       = Sub env0 (Some 1) (Some 0) (Some 1) (Some 2) s2
     \<and> map_option (\<lambda>(rc, s'). (rc, val_ui (Obj s' 0)))
         (ProcessExpr env0 (Some 1) (ToVariable order_tree) order_state) = Some (EOK, 1)"
proof -
  let ?r = "ToVariable (Node 2 (ToVariable (Node 3 Null Null)) Null)"
  let ?l = "ToVariable (Node 1 (ToVariable (Node 3 Null Null)) Null)"
  define s1 where "s1 = snd (the (ProcessVariable env0 (Some 1) ?r order_state))"
  define s2 where "s2 = snd (the (ProcessVariable env0 (Some 1) ?l s1))"
  note ev = example_simps NOP_def Inc_def Inc_operand_def Sub_def Let_def
  have r: "ProcessVariable env0 (Some 1) ?r order_state = Some (EOK, s1)"
    and r': "val_ui (Obj s1 2) = 5" "val_ui (Obj s1 3) = 6"
    unfolding s1_def by (simp_all add: ev)
  have l: "ProcessVariable env0 (Some 1) ?l s1 = Some (EOK, s2)"
    and l': "val_ui (Obj s2 1) = 6" "val_ui (Obj s2 3) = 7"
    unfolding s2_def s1_def by (simp_all add: ev)
  have op: "0 \<le> operation (vars s2 0)" "operation (vars s2 0) < VA_OP_MAX"
    and fn: "va_op s2 (operation (vars s2 0)) = Some Fn_Sub"
    unfolding s2_def s1_def by (simp_all add: ev)
  from ProcessExpr_right_left_handler [OF r l op fn]
  have e: "ProcessExpr env0 (Some 1) (ToVariable order_tree) order_state
             = Sub env0 (Some 1) (Some 0) (Some 1) (Some 2) s2"
    by (simp add: order_tree_def call_def)
  have "map_option (\<lambda>(rc, s'). (rc, val_ui (Obj s' 0)))
          (Sub env0 (Some 1) (Some 0) (Some 1) (Some 2) s2) = Some (EOK, 1)"
    unfolding s2_def s1_def by (simp add: ev)
  with r r' l l' fn e show ?thesis by auto
qed

subsection \<open>The IF statement\<close>

lemma ProcessIF_true_runs_then:
  assumes "ProcessVariable env hVarServer (ToVariable (Node c cl cr)) s = Some (EOK, s1)"
    and "operation (vars s b) = VA_ELSE"
    and "val_ui (Obj s1 c) \<noteq> 0"
  shows "ProcessIF env hVarServer (ToVariable (Node c cl cr))
           (ToVariable (Node b (ToStatements thens) else_link)) s
         = ProcessCompoundStatement env hVarServer thens s1"
  using assms by simp

lemma ProcessIF_false_without_else:
  assumes "ProcessVariable env hVarServer (ToVariable (Node c cl cr)) s = Some (EOK, s1)"
    and "operation (vars s b) = VA_ELSE"
    and "val_ui (Obj s1 c) = 0"
    and "is_null else_link"
  shows "ProcessIF env hVarServer (ToVariable (Node c cl cr))
           (ToVariable (Node b then_link else_link)) s
         = Some (EOK, s1)"
  using assms by simp

text \<open>
  The scenario of the specification for a well-formed IF: the condition is a constant,
  the "then" list is \<open>y = 1\<close> on the local 16-bit variable at cell 5, there is no "else"
  list.  With the condition 1 the variable ends at 1, with the condition 0 it stays 0;
  both evaluations return \<open>EOK\<close>.
\<close>

lemma IF_scenario:
  "map_option (\<lambda>(rc, s'). (rc, val_ui (Obj s' 5)))
     (ProcessVariable env0 (Some 1)
        (ToVariable (Node 0 (ToVariable (Node 1 Null Null))
           (ToVariable (Node 2
              (ToStatements [Statement (ToVariable (Node 4 (ToVariable (Node 5 Null Null))
                                                          (ToVariable (Node 6 Null Null)))) None 1])
              Null))))
        (put 0 (short_var VA_IF 0) (put 1 (short_var VA_NUM c) (put 2 (short_var VA_ELSE 0)
          (put 4 (short_var VA_ASSIGN 0) (put 5 (short_var VA_LOCALVAR 0)
            (put 6 (short_var VA_NUM 1) state0)))))))
   = Some (EOK, if c \<noteq> 0 then 1 else 0)"
  by (simp add: example_simps NOP_def Assign_def write_back_def Let_def)

text \<open>
  C4.  An IF node whose right child is absent, or is a node that is not an ELSE, is to
  fail with \<open>EINVAL\<close>.  \<open>ProcessIF\<close> returns its local \<open>rc\<close>, which has no value on
  this path: the code is whatever the environment left there, and \<open>ProcessVariable\<close> on
  such an IF node passes it on.  In the witness that value is 0 and the malformed IF
  statement succeeds.
\<close>

theorem ProcessIF_without_ELSE_returns_uninitialised:
  "ProcessIF env hVarServer left Null s = Some (uninit_int env (world s), s)
   \<and> (operation (vars s b) \<noteq> VA_ELSE \<longrightarrow>
        ProcessIF env hVarServer left (ToVariable (Node b then_link else_link)) s
          = Some (uninit_int env (world s), s))
   \<and> (operation (vars s a) = VA_IF \<longrightarrow>
        ProcessVariable env (Some h) (ToVariable (Node a left Null)) s
          = Some (uninit_int env (world s), s))"
  by (simp add: opname_defined_def)

theorem ProcessIF_without_ELSE_returns_uninitialised_witness:
  "ProcessIF env0 (Some 1) (ToVariable (Node 1 Null Null)) Null
      (put 0 (short_var VA_IF 0) (put 1 (short_var VA_NUM 1) (put 2 (short_var VA_NUM 0) state0)))
     = Some (EOK, put 0 (short_var VA_IF 0) (put 1 (short_var VA_NUM 1) (put 2 (short_var VA_NUM 0) state0)))
   \<and> ProcessIF env0 (Some 1) (ToVariable (Node 1 Null Null)) (ToVariable (Node 2 Null Null))
      (put 0 (short_var VA_IF 0) (put 1 (short_var VA_NUM 1) (put 2 (short_var VA_NUM 0) state0)))
     = Some (EOK, put 0 (short_var VA_IF 0) (put 1 (short_var VA_NUM 1) (put 2 (short_var VA_NUM 0) state0)))
   \<and> ProcessVariable env0 (Some 1) (ToVariable (Node 0 (ToVariable (Node 1 Null Null)) Null))
      (put 0 (short_var VA_IF 0) (put 1 (short_var VA_NUM 1) (put 2 (short_var VA_NUM 0) state0)))
     = Some (EOK, put 0 (short_var VA_IF 0) (put 1 (short_var VA_NUM 1) (put 2 (short_var VA_NUM 0) state0)))"
proof -
  let ?st = "put 0 (short_var VA_IF 0) (put 1 (short_var VA_NUM 1) (put 2 (short_var VA_NUM 0) state0))"
  have u: "uninit_int env0 (world ?st) = EOK" by (simp add: env0_def)
  have e: "operation (vars ?st 2) \<noteq> VA_ELSE" and i: "operation (vars ?st 0) = VA_IF"
    by (simp_all add: cell_simps)
  from ProcessIF_without_ELSE_returns_uninitialised
         [where env = env0 and hVarServer = "Some 1" and left = "ToVariable (Node 1 Null Null)"
            and s = ?st and b = 2 and then_link = Null and else_link = Null and a = 0 and h = 1]
       u e i
  show ?thesis by simp
qed

end
